theory Spec2Isabelle
  imports Complex_Main "HOL-Library.AList"
begin

section \<open>Go values behind \<open>interface{}\<close>\<close>

text \<open>
  The proxy handles backend replies as \<open>map[string]interface{}\<close> trees produced by
  \<open>json.Unmarshal\<close>, and builds its own requests as map literals. A value of type
  \<open>interface{}\<close> carries its dynamic type, and \<open>==\<close> on two interface values is true
  only when the dynamic types agree and the values are equal. The constructors below are
  the dynamic types that occur in \<open>pkg/mcp/server/proxy_tool.go\<close>: \<open>json.Unmarshal\<close> yields
  \<open>nil\<close>, \<open>bool\<close>, \<open>float64\<close>, \<open>string\<close>, \<open>[]interface{}\<close> and \<open>map[string]interface{}\<close>;
  an untyped integer constant stored in an interface (\<open>"id": 2\<close>, or the right operand of
  \<open>code == -32602\<close>) has dynamic type \<open>int\<close>.

  A Go map is an association list whose keys are distinct; \<open>m[k]\<close> is \<open>map_of m k\<close> and
  \<open>m[k] = v\<close> is \<open>AList.update k v m\<close>. The payload of a \<open>float64\<close> that was decoded from
  a JSON number is the rational it denotes.
\<close>

datatype goval =
    GoNil
  | GoBool bool
  | GoInt int
  | GoFloat64 rat
  | GoString string
  | GoSlice "goval list"
  | GoMap "(string \<times> goval) list"

type_synonym gomap = "(string \<times> goval) list"

text \<open>Values as \<open>json.Unmarshal\<close> produces them: no dynamic type \<open>int\<close> anywhere.\<close>

fun decoded :: "goval \<Rightarrow> bool" where
  "decoded GoNil = True"
| "decoded (GoBool b) = True"
| "decoded (GoInt n) = False"
| "decoded (GoFloat64 q) = True"
| "decoded (GoString s) = True"
| "decoded (GoSlice vs) = list_all decoded vs"
| "decoded (GoMap kvs) = list_all (\<lambda>kv. decoded (snd kv)) kvs"

text \<open>
  \<open>for k, v := range m { out[k] = v }\<close>: the copy loop of \<open>applyAllowToolsFilter\<close>, run over
  the entries of the source map into the map built so far.
\<close>

fun copyEntries :: "gomap \<Rightarrow> gomap \<Rightarrow> gomap" where
  "copyEntries [] out = out"
| "copyEntries ((k, v) # rest) out = copyEntries rest (AList.update k v out)"


section \<open>The string helpers of the allow-list header\<close>

text \<open>
  \<open>strings.SplitSeq(headerStr, ",")\<close> yields the pieces of \<open>headerStr\<close> between commas, in
  order; a string without a comma (the empty string too) yields itself as the only piece.
  The separator of the source is the one-byte string \<open>","\<close>, so it is a \<open>char\<close> here.
\<close>

fun SplitSeq :: "string \<Rightarrow> char \<Rightarrow> string list" where
  "SplitSeq [] sep = [[]]"
| "SplitSeq (c # cs) sep =
     (if c = sep then [] # SplitSeq cs sep
      else (case SplitSeq cs sep of
              [] \<Rightarrow> [[c]]
            | piece # pieces \<Rightarrow> (c # piece) # pieces))"

fun joinWith :: "char \<Rightarrow> string list \<Rightarrow> string" where
  "joinWith sep [] = []"
| "joinWith sep [p] = p"
| "joinWith sep (p # q # ps) = p @ sep # joinWith sep (q # ps)"

text \<open>
  \<open>strings.TrimSpace\<close> removes, at both ends, every code point for which
  \<open>unicode.IsSpace\<close> holds. Strings are byte sequences, so each such code point is listed
  by its UTF-8 encoding: tab, line feed, vertical tab, form feed, carriage return, space,
  U+0085, U+00A0, U+1680, U+2000 to U+200A, U+2028, U+2029, U+202F, U+205F and U+3000.
\<close>

definition unicodeSpaces :: "string list" where
  "unicodeSpaces =
     [[CHR 0x09], [CHR 0x0A], [CHR 0x0B], [CHR 0x0C], [CHR 0x0D], [CHR 0x20],
      [CHR 0xC2, CHR 0x85], [CHR 0xC2, CHR 0xA0],
      [CHR 0xE1, CHR 0x9A, CHR 0x80],
      [CHR 0xE2, CHR 0x80, CHR 0x80], [CHR 0xE2, CHR 0x80, CHR 0x81],
      [CHR 0xE2, CHR 0x80, CHR 0x82], [CHR 0xE2, CHR 0x80, CHR 0x83],
      [CHR 0xE2, CHR 0x80, CHR 0x84], [CHR 0xE2, CHR 0x80, CHR 0x85],
      [CHR 0xE2, CHR 0x80, CHR 0x86], [CHR 0xE2, CHR 0x80, CHR 0x87],
      [CHR 0xE2, CHR 0x80, CHR 0x88], [CHR 0xE2, CHR 0x80, CHR 0x89],
      [CHR 0xE2, CHR 0x80, CHR 0x8A],
      [CHR 0xE2, CHR 0x80, CHR 0xA8], [CHR 0xE2, CHR 0x80, CHR 0xA9],
      [CHR 0xE2, CHR 0x80, CHR 0xAF],
      [CHR 0xE2, CHR 0x81, CHR 0x9F],
      [CHR 0xE3, CHR 0x80, CHR 0x80]]"

definition leadingSpace :: "string list \<Rightarrow> string \<Rightarrow> string option" where
  "leadingSpace table s = List.find (\<lambda>w. w \<noteq> [] \<and> take (length w) s = w) table"

function trimLeading :: "string list \<Rightarrow> string \<Rightarrow> string" where
  "trimLeading table s =
     (case leadingSpace table s of
        None \<Rightarrow> s
      | Some w \<Rightarrow> trimLeading table (drop (length w) s))"
  by pat_completeness auto
termination
proof (relation "measure (\<lambda>(table, s). length s)")
  show "wf (measure (\<lambda>(table, s). length s))"
    by simp
next
  fix table :: "string list" and s w :: string
  assume "leadingSpace table s = Some w"
  then have "w \<noteq> []" and "take (length w) s = w"
    by (auto simp: leadingSpace_def find_Some_iff)
  then have "s \<noteq> []" and "0 < length w"
    by auto
  then show "((table, drop (length w) s), (table, s)) \<in> measure (\<lambda>(table, s). length s)"
    by simp
qed

definition TrimSpace :: "string \<Rightarrow> string" where
  "TrimSpace s =
     rev (trimLeading (map rev unicodeSpaces) (rev (trimLeading unicodeSpaces s)))"


section \<open>The allow-list filter\<close>

text \<open>
  The request context is a key/value store; the keys that \<open>proxy_tool.go\<close> reads and
  writes are the fields below, \<open>None\<close> where \<open>GetContext\<close> returns \<open>nil\<close>. A
  \<open>map[string]struct{}\<close> is a set of strings. \<open>SecurityScheme\<close> is declared outside the
  files at hand; its fields are the ones \<open>proxy_server.go\<close> reads. Several Go structs share
  field names; where two records of this theory would clash, the field carries the
  struct's initials as a prefix.
\<close>

datatype McpProxyOperation = OpToolsList | OpToolsCall | OpOther string

record SecurityScheme =
  ID :: string
  Type :: string
  In :: string
  Name :: string
  Scheme :: string
  DefaultCredential :: string

record McpProxyServer =
  ServerName :: string
  securitySchemes :: "(string \<times> SecurityScheme) list"

record ProxyAuthInfo =
  SecuritySchemeID :: string
  PaiPassthroughCredential :: string
  Server :: McpProxyServer

record HttpContext =
  mcp_proxy_initialized :: "bool option"
  mcp_proxy_session_id :: "string option"
  mcp_proxy_tool_name :: "string option"
  mcp_proxy_tool_args :: "gomap option"
  mcp_proxy_operation :: "McpProxyOperation option"
  mcp_proxy_cursor :: "string option"
  mcp_proxy_auth_info :: "ProxyAuthInfo option"
  mcp_proxy_allow_tools :: "string set option"
  mcp_proxy_allow_tools_header :: "string option"

text \<open>The loop over the pieces of the header: empty pieces are skipped.\<close>

fun headerToolsLoop :: "string list \<Rightarrow> string set \<Rightarrow> string set" where
  "headerToolsLoop [] allowToolsFromHeader = allowToolsFromHeader"
| "headerToolsLoop (tool # rest) allowToolsFromHeader =
     (let trimmedTool = TrimSpace tool in
      if trimmedTool = [] then headerToolsLoop rest allowToolsFromHeader
      else headerToolsLoop rest (insert trimmedTool allowToolsFromHeader))"

definition allowToolsOfContext :: "HttpContext \<Rightarrow> string set" where
  "allowToolsOfContext ctx =
     (case mcp_proxy_allow_tools ctx of None \<Rightarrow> {} | Some allowToolsMap \<Rightarrow> allowToolsMap)"

definition allowToolsFromHeaderOfContext :: "HttpContext \<Rightarrow> string set" where
  "allowToolsFromHeaderOfContext ctx =
     (case mcp_proxy_allow_tools_header ctx of
        None \<Rightarrow> {}
      | Some headerStr \<Rightarrow> headerToolsLoop (SplitSeq headerStr CHR '','') {})"

text \<open>
  The loop over \<open>toolsArray\<close>. An entry that is not a map, has no \<open>name\<close>, or whose name is
  not a string falls through every \<open>if\<close> and is not appended; the two \<open>continue\<close>
  statements skip a named tool that a non-empty allow-set does not contain.
\<close>

fun filterToolsLoop :: "string set \<Rightarrow> string set \<Rightarrow> goval list \<Rightarrow> goval list \<Rightarrow> goval list" where
  "filterToolsLoop allowTools allowToolsFromHeader [] filteredTools = filteredTools"
| "filterToolsLoop allowTools allowToolsFromHeader (tool # rest) filteredTools =
     (case tool of
        GoMap toolMap \<Rightarrow>
          (case map_of toolMap ''name'' of
             Some (GoString toolName) \<Rightarrow>
               if allowTools \<noteq> {} \<and> toolName \<notin> allowTools
               then filterToolsLoop allowTools allowToolsFromHeader rest filteredTools
               else if allowToolsFromHeader \<noteq> {} \<and> toolName \<notin> allowToolsFromHeader
               then filterToolsLoop allowTools allowToolsFromHeader rest filteredTools
               else filterToolsLoop allowTools allowToolsFromHeader rest (filteredTools @ [tool])
           | _ \<Rightarrow> filterToolsLoop allowTools allowToolsFromHeader rest filteredTools)
      | _ \<Rightarrow> filterToolsLoop allowTools allowToolsFromHeader rest filteredTools)"

definition applyAllowToolsFilter :: "HttpContext \<Rightarrow> gomap \<Rightarrow> gomap" where
  "applyAllowToolsFilter ctx resultMap =
     (let allowTools = allowToolsOfContext ctx;
          allowToolsFromHeader = allowToolsFromHeaderOfContext ctx
      in if allowTools = {} \<and> allowToolsFromHeader = {} then resultMap
         else (case map_of resultMap ''tools'' of
                 Some (GoSlice toolsArray) \<Rightarrow>
                   (let filteredTools = filterToolsLoop allowTools allowToolsFromHeader toolsArray [];
                        filteredResult = copyEntries resultMap []
                    in AList.update ''tools'' (GoSlice filteredTools) filteredResult)
               | _ \<Rightarrow> resultMap))"

text \<open>
  The allow-list filter in the words of its description: the name of a tool entry, the
  entries whose name is in every non-empty allow-set, the set parsed from the header, and
  the \<open>tools\<close> array of a result.
\<close>

definition toolNameOf :: "goval \<Rightarrow> string option" where
  "toolNameOf tool =
     (case tool of
        GoMap toolMap \<Rightarrow>
          (case map_of toolMap ''name'' of Some (GoString toolName) \<Rightarrow> Some toolName | _ \<Rightarrow> None)
      | _ \<Rightarrow> None)"

definition inEveryNonEmptyAllowSet :: "string set \<Rightarrow> string set \<Rightarrow> goval \<Rightarrow> bool" where
  "inEveryNonEmptyAllowSet A H tool =
     (case toolNameOf tool of
        None \<Rightarrow> False
      | Some n \<Rightarrow> (A = {} \<or> n \<in> A) \<and> (H = {} \<or> n \<in> H))"

definition headerAllowSet :: "string \<Rightarrow> string set" where
  "headerAllowSet headerStr =
     set (filter (\<lambda>t. t \<noteq> []) (map TrimSpace (SplitSeq headerStr CHR '','')))"

definition toolsArrayOf :: "gomap \<Rightarrow> goval list option" where
  "toolsArrayOf resultMap =
     (case map_of resultMap ''tools'' of Some (GoSlice toolsArray) \<Rightarrow> Some toolsArray | _ \<Rightarrow> None)"



section \<open>Authentication of outbound calls\<close>

text \<open>
  \<open>net/url.URL\<close> is the record of the parts that \<open>applyProxyAuthentication\<close> reassembles,
  with \<open>EscapedPath\<close> holding what the method of that name returns. Header lists are
  \<open>[][2]string\<close>.
\<close>

type_synonym headers = "(string \<times> string) list"

record URL =
  UrlScheme :: string
  Host :: string
  EscapedPath :: string
  RawQuery :: string
  Fragment :: string

record ProxyAuthContext =
  Headers :: headers
  ParsedURL :: URL
  RequestBody :: string
  PassthroughCredential :: string

definition GetSecurityScheme :: "McpProxyServer \<Rightarrow> string \<Rightarrow> SecurityScheme option" where
  "GetSecurityScheme s schemeId = map_of (securitySchemes s) schemeId"

text \<open>
  The loop \<open>for i, header := range ctx.Headers\<close> of \<open>ApplyAuthentication\<close>: the first header
  with the given name is overwritten and the loop breaks; \<open>None\<close> is \<open>found == false\<close>.
\<close>

fun replaceFirstHeader :: "string \<Rightarrow> string \<Rightarrow> headers \<Rightarrow> headers option" where
  "replaceFirstHeader name credential [] = None"
| "replaceFirstHeader name credential (header # rest) =
     (if fst header = name then Some ((name, credential) # rest)
      else map_option ((#) header) (replaceFirstHeader name credential rest))"

definition addOrUpdateHeader :: "string \<Rightarrow> string \<Rightarrow> headers \<Rightarrow> headers" where
  "addOrUpdateHeader name credential hs =
     (case replaceFirstHeader name credential hs of
        Some hs' \<Rightarrow> hs'
      | None \<Rightarrow> hs @ [(name, credential)])"

text \<open>
  The credential that \<open>ApplyAuthentication\<close> settles on before it looks at the scheme type:
  the passthrough credential of the context, replaced by the scheme's default when it is
  empty and a default exists.
\<close>

definition chosenCredential :: "SecurityScheme \<Rightarrow> ProxyAuthContext \<Rightarrow> string" where
  "chosenCredential scheme ctx =
     (let credential = PassthroughCredential ctx in
      if credential = [] \<and> DefaultCredential scheme \<noteq> [] then DefaultCredential scheme
      else credential)"

definition ApplyAuthentication ::
  "McpProxyServer \<Rightarrow> ProxyAuthContext \<Rightarrow> string \<Rightarrow> string + ProxyAuthContext" where
  "ApplyAuthentication s ctx schemeID =
     (case GetSecurityScheme s schemeID of
        None \<Rightarrow> Inl (''security scheme not found: '' @ schemeID)
      | Some scheme \<Rightarrow>
          (let credential = chosenCredential scheme ctx in
           if credential = [] then Inl (''no credential available for scheme '' @ schemeID)
           else if Type scheme = ''apiKey'' then
             (if In scheme = ''header''
              then Inr (ctx\<lparr>Headers := addOrUpdateHeader (Name scheme) credential (Headers ctx)\<rparr>)
              else if In scheme = ''query'' then Inr ctx
              else Inr ctx)
           else if Type scheme = ''http''
           then Inr (ctx\<lparr>Headers := addOrUpdateHeader ''Authorization'' credential (Headers ctx)\<rparr>)
           else Inr ctx))"

text \<open>
  The later \<open>proxy_tool.go\<close> authenticates through \<open>ApplySecurity\<close>, \<open>url.Parse\<close> and the
  host's call primitives, none of which is among the files at hand: they are the fields of
  the environment below. \<open>ApplySecurity\<close> either fails with a message or returns the
  request context it has updated; \<open>RouteCall\<close> and \<open>client.Post\<close> return an error or
  \<open>nil\<close>; \<open>verb\<close> is the \<open>%v\<close> rendering of a value that is not a string.
\<close>

record SecurityRequirement =
  SrID :: string
  SrCredential :: string
  SrPassthrough :: bool

record AuthRequestContext =
  ArcMethod :: string
  ArcHeaders :: headers
  ArcParsedURL :: URL
  ArcRequestBody :: string
  ArcPassthroughCredential :: string

record Env =
  urlParse :: "string \<Rightarrow> string + URL"
  ApplySecurity ::
    "SecurityRequirement \<Rightarrow> McpProxyServer \<Rightarrow> AuthRequestContext \<Rightarrow> string + AuthRequestContext"
  RouteCallResult :: "string \<Rightarrow> string option"
  PostResult :: "string \<Rightarrow> string option"
  verb :: "goval \<Rightarrow> string"


section \<open>The StreamableHTTP exchange of \<open>proxy_tool.go\<close>\<close>

text \<open>
  The handler issues asynchronous calls and continues in their callbacks. What a function
  does to the outside is recorded as a trace of effects: a log line (level and format
  string), a reply handed to \<open>utils.OnMCPResponseSuccess\<close> or \<open>utils.OnMCPResponseError\<close>
  (which build the client's JSON-RPC frame around the request id kept in the context), a
  call handed to \<open>client.Post\<close> or \<open>ctx.RouteCall\<close> together with the callback that will
  receive the reply, and \<open>proxywasm.ResumeHttpRequest\<close>. The body of an outbound call is
  the map that \<open>json.Marshal\<close> serialises; \<open>json.Marshal\<close> does not fail on the maps built
  here, so the branches for its error are not part of the model.
\<close>

datatype LogLevel = LogDebug | LogInfo | LogWarn | LogError

datatype Callback =
    InitializeCallback "ProxyAuthInfo option"
  | InitializedNotificationCallback
  | ToolsListCallback
  | ToolsCallCallback string

datatype Effect =
    Logf LogLevel string
  | OnMCPResponseSuccess gomap string
  | OnMCPResponseError string int string
  | ClientPost string headers goval int Callback
  | RouteCall string string headers goval Callback
  | ResumeHttpRequest

datatype GoResult = NoError | Failed string | Panic string

record McpProtocolHandler =
  backendURL :: string
  timeout :: int
  sessionID :: string

record World =
  handler :: McpProtocolHandler
  httpCtx :: HttpContext
  trace :: "Effect list"

definition emit :: "Effect list \<Rightarrow> World \<Rightarrow> World" where
  "emit es w = w\<lparr>trace := trace w @ es\<rparr>"

text \<open>
  Modelled from the spec: the error codes of \<open>pkg/mcp/utils\<close>, which is not among the files
  at hand: INTERNAL_ERROR is \<open>-32603\<close> and INVALID_PARAMS is \<open>-32602\<close>.
\<close>

definition ErrInternalError :: int where
  "ErrInternalError = -32603"

definition ErrInvalidParams :: int where
  "ErrInvalidParams = -32602"

text \<open>
  A reply body is either a byte string that is not JSON, with the decoder's message, or
  the value the JSON text denotes. \<open>json.Unmarshal\<close> into a \<open>map[string]interface{}\<close>
  accepts an object, leaves the map \<open>nil\<close> on \<open>null\<close>, and rejects every other value.
\<close>

datatype Body = Malformed string | Json goval

definition unmarshalMap :: "Body \<Rightarrow> string + gomap" where
  "unmarshalMap body =
     (case body of
        Malformed e \<Rightarrow> Inl e
      | Json v \<Rightarrow>
          (case v of
             GoMap m \<Rightarrow> Inr m
           | GoNil \<Rightarrow> Inr []
           | GoBool b \<Rightarrow>
               Inl ''json: cannot unmarshal bool into Go value of type map[string]interface {}''
           | GoInt n \<Rightarrow>
               Inl ''json: cannot unmarshal number into Go value of type map[string]interface {}''
           | GoFloat64 q \<Rightarrow>
               Inl ''json: cannot unmarshal number into Go value of type map[string]interface {}''
           | GoString s \<Rightarrow>
               Inl ''json: cannot unmarshal string into Go value of type map[string]interface {}''
           | GoSlice vs \<Rightarrow>
               Inl ''json: cannot unmarshal array into Go value of type map[string]interface {}''))"

text \<open>
  \<open>json.Marshal\<close> followed by \<open>json.Unmarshal\<close>, as \<open>wrapBackendError\<close> does with the map it
  has edited: an \<open>int\<close> comes back as a \<open>float64\<close>, everything else as it was. Both steps
  succeed on a map that came from \<open>json.Unmarshal\<close>, so the branches for their errors are
  not part of the model.
\<close>

fun remarshal :: "goval \<Rightarrow> goval" where
  "remarshal GoNil = GoNil"
| "remarshal (GoBool b) = GoBool b"
| "remarshal (GoInt n) = GoFloat64 (of_int n)"
| "remarshal (GoFloat64 q) = GoFloat64 q"
| "remarshal (GoString s) = GoString s"
| "remarshal (GoSlice vs) = GoSlice (map remarshal vs)"
| "remarshal (GoMap kvs) = GoMap (map (\<lambda>kv. (fst kv, remarshal (snd kv))) kvs)"

definition remarshalMap :: "gomap \<Rightarrow> gomap" where
  "remarshalMap m = map (\<lambda>kv. (fst kv, remarshal (snd kv))) m"

text \<open>\<open>fmt.Sprintf("%v", v)\<close>: a string is rendered as itself.\<close>

definition sprintV :: "Env \<Rightarrow> goval \<Rightarrow> string" where
  "sprintV env v = (case v of GoString s \<Rightarrow> s | _ \<Rightarrow> verb env v)"

subsection \<open>The requests the handler builds\<close>

definition createInitializeRequest :: gomap where
  "createInitializeRequest =
     [(''jsonrpc'', GoString ''2.0''),
      (''id'', GoInt 1),
      (''method'', GoString ''initialize''),
      (''params'', GoMap
         [(''protocolVersion'', GoString ''2025-03-26''),
          (''capabilities'', GoMap []),
          (''clientInfo'', GoMap
             [(''name'', GoString ''Higress-mcp-proxy''),
              (''version'', GoString ''1.0.0'')])])]"

definition initializedNotification :: gomap where
  "initializedNotification =
     [(''jsonrpc'', GoString ''2.0''),
      (''method'', GoString ''notifications/initialized'')]"

definition createToolsListRequest :: "string option \<Rightarrow> gomap" where
  "createToolsListRequest cursor =
     [(''jsonrpc'', GoString ''2.0''),
      (''id'', GoInt 2),
      (''method'', GoString ''tools/list''),
      (''params'', GoMap
         (case cursor of
            None \<Rightarrow> []
          | Some c \<Rightarrow> if c \<noteq> [] then [(''cursor'', GoString c)] else []))]"

definition createToolsCallRequest :: "string \<Rightarrow> gomap \<Rightarrow> gomap" where
  "createToolsCallRequest toolName arguments =
     [(''jsonrpc'', GoString ''2.0''),
      (''id'', GoInt 3),
      (''method'', GoString ''tools/call''),
      (''params'', GoMap
         [(''name'', GoString toolName),
          (''arguments'', GoMap arguments)])]"

subsection \<open>Headers, authentication and the two ways to call the backend\<close>

definition requestHeaders :: "McpProtocolHandler \<Rightarrow> headers" where
  "requestHeaders h =
     (''Content-Type'', ''application/json'')
       # (if sessionID h \<noteq> [] then [(''Mcp-Session-Id'', sessionID h)] else [])"

definition TrimPrefix :: "string \<Rightarrow> string \<Rightarrow> string" where
  "TrimPrefix s pre = (if take (length pre) s = pre then drop (length pre) s else s)"

definition applyProxyAuthentication ::
  "Env \<Rightarrow> McpProtocolHandler \<Rightarrow> McpProxyServer \<Rightarrow> string \<Rightarrow> string \<Rightarrow> headers
     \<Rightarrow> string + (string \<times> headers)" where
  "applyProxyAuthentication env h server schemeID passthroughCredential hs =
     (case urlParse env (backendURL h) of
        Inl err \<Rightarrow> Inl (''failed to parse backend URL: '' @ err)
      | Inr parsedURL \<Rightarrow>
          (let authCtx = \<lparr> ArcMethod = ''POST'', ArcHeaders = hs, ArcParsedURL = parsedURL,
                           ArcRequestBody = [],
                           ArcPassthroughCredential = passthroughCredential \<rparr>;
               securityConfig = \<lparr> SrID = schemeID, SrCredential = [],
                                  SrPassthrough = (passthroughCredential \<noteq> []) \<rparr>
           in case ApplySecurity env securityConfig server authCtx of
                Inl err \<Rightarrow> Inl err
              | Inr authCtx' \<Rightarrow>
                  (let u = ArcParsedURL authCtx';
                       encodedPath = EscapedPath u;
                       urlStr = (if UrlScheme u \<noteq> [] \<and> Host u \<noteq> []
                                 then UrlScheme u @ ''://'' @ Host u @ encodedPath
                                 else ''/'' @ TrimPrefix encodedPath ''/'');
                       urlStr = (if RawQuery u \<noteq> [] then urlStr @ ''?'' @ RawQuery u else urlStr);
                       urlStr = (if Fragment u \<noteq> [] then urlStr @ ''#'' @ Fragment u else urlStr)
                   in Inr (urlStr, ArcHeaders authCtx'))))"

text \<open>
  The block "apply authentication if auth info was provided", which \<open>executeToolsList\<close>,
  \<open>executeToolsCall\<close> and \<open>sendMcpRequest\<close> each contain with their own log lines: the final
  URL, the headers and the log lines written. A failure of \<open>applyProxyAuthentication\<close> is
  logged, and the call goes on with the backend URL and the headers as they were.
\<close>

definition authenticate ::
  "Env \<Rightarrow> McpProtocolHandler \<Rightarrow> ProxyAuthInfo option \<Rightarrow> headers \<Rightarrow> string \<Rightarrow> string
     \<Rightarrow> string \<times> headers \<times> Effect list" where
  "authenticate env h authInfo hs failureFormat successFormat =
     (case authInfo of
        None \<Rightarrow> (backendURL h, hs, [])
      | Some info \<Rightarrow>
          if SecuritySchemeID info = [] then (backendURL h, hs, [])
          else (case applyProxyAuthentication env h (Server info) (SecuritySchemeID info)
                       (PaiPassthroughCredential info) hs of
                  Inl err \<Rightarrow> (backendURL h, hs, [Logf LogError failureFormat])
                | Inr (modifiedURL, hs') \<Rightarrow> (modifiedURL, hs', [Logf LogDebug successFormat])))"

definition requestTimeout :: "McpProtocolHandler \<Rightarrow> int" where
  "requestTimeout h = (let t = timeout h mod 2 ^ 32 in if t = 0 then 5000 else t)"

definition sendMcpRequest ::
  "Env \<Rightarrow> World \<Rightarrow> goval \<Rightarrow> ProxyAuthInfo option \<Rightarrow> Callback \<Rightarrow> World \<times> GoResult" where
  "sendMcpRequest env w body authInfo callback =
     (case authenticate env (handler w) authInfo (requestHeaders (handler w))
             ''Failed to apply authentication for MCP request: %v''
             ''Using modified URL for MCP request: %s'' of
        (finalURL, hs, logs) \<Rightarrow>
          (emit (logs @ [ClientPost finalURL hs body (requestTimeout (handler w)) callback]) w,
           (case PostResult env finalURL of None \<Rightarrow> NoError | Some err \<Rightarrow> Failed err)))"

subsection \<open>\<open>tools/call\<close>: the reply and the wrapping of a backend error\<close>

text \<open>
  The edit of \<open>wrapBackendError\<close>: when \<open>result\<close> is a map whose \<open>content\<close> is a non-empty
  array, the first entry is a map, and that map has a \<open>text\<close>, the text is replaced in
  place by \<open>"Backend error: "\<close> followed by its \<open>%v\<close> rendering. The maps are shared by
  reference in Go, so the edit shows in \<open>response\<close>.
\<close>

definition addSourceAttribution :: "Env \<Rightarrow> gomap \<Rightarrow> gomap" where
  "addSourceAttribution env response =
     (case map_of response ''result'' of
        Some (GoMap resultMap) \<Rightarrow>
          (case map_of resultMap ''content'' of
             Some (GoSlice contentArray) \<Rightarrow>
               (case contentArray of
                  GoMap textContent # others \<Rightarrow>
                    (case map_of textContent ''text'' of
                       Some text \<Rightarrow>
                         (let wrappedText = ''Backend error: '' @ sprintV env text;
                              textContent' = AList.update ''text'' (GoString wrappedText) textContent;
                              resultMap' = AList.update ''content''
                                             (GoSlice (GoMap textContent' # others)) resultMap
                          in AList.update ''result'' (GoMap resultMap') response)
                     | None \<Rightarrow> response)
                | _ \<Rightarrow> response)
           | _ \<Rightarrow> response)
      | _ \<Rightarrow> response)"

definition wrapBackendError :: "Env \<Rightarrow> World \<Rightarrow> Body \<Rightarrow> World" where
  "wrapBackendError env w originalResponse =
     (case unmarshalMap originalResponse of
        Inl err \<Rightarrow>
          emit [Logf LogError ''Failed to parse backend error response: %v'',
                OnMCPResponseError err ErrInternalError ''mcp-proxy:error:parse_failure''] w
      | Inr response \<Rightarrow>
          (let wrappedResult = remarshalMap (addSourceAttribution env response)
           in case map_of wrappedResult ''result'' of
                Some (GoMap resultMap) \<Rightarrow>
                  emit [OnMCPResponseSuccess resultMap ''mcp-proxy:error:backend_wrapped''] w
              | Some other \<Rightarrow>
                  emit [OnMCPResponseError ''invalid wrapped result type'' ErrInternalError
                          ''mcp-proxy:error:wrap_failure''] w
              | None \<Rightarrow>
                  emit [OnMCPResponseError ''wrapped response parse error'' ErrInternalError
                          ''mcp-proxy:error:wrap_failure''] w))"

text \<open>The first look at the body: does it parse to a result map with \<open>isError == true\<close>?\<close>

definition reportsToolError :: "Body \<Rightarrow> bool" where
  "reportsToolError responseBody =
     (case unmarshalMap responseBody of
        Inl err \<Rightarrow> False
      | Inr callResponse \<Rightarrow>
          (case map_of callResponse ''result'' of
             Some (GoMap resultMap) \<Rightarrow>
               (case map_of resultMap ''isError'' of
                  Some isError \<Rightarrow> isError = GoBool True
                | None \<Rightarrow> False)
           | _ \<Rightarrow> False))"

definition onToolsCallResponse :: "Env \<Rightarrow> World \<Rightarrow> int \<Rightarrow> headers \<Rightarrow> Body \<Rightarrow> World" where
  "onToolsCallResponse env w statusCode responseHeaders responseBody =
     (if statusCode \<noteq> 200 then
        emit [Logf LogError ''Tools/call request failed with status %d: %s'',
              OnMCPResponseError ''backend tools/call failed'' ErrInternalError
                ''mcp-proxy:tools/call:backend_error''] w
      else if reportsToolError responseBody then
        wrapBackendError env
          (emit [Logf LogWarn ''Backend reported tool call error for %s''] w) responseBody
      else
        (case unmarshalMap responseBody of
           Inl err \<Rightarrow>
             emit [Logf LogError ''Failed to parse tools/call response: %v'',
                   OnMCPResponseError err ErrInternalError ''mcp-proxy:tools/call:parse_error''] w
         | Inr finalResponse \<Rightarrow>
             (case map_of finalResponse ''result'' of
                Some (GoMap resultMap) \<Rightarrow>
                  emit [OnMCPResponseSuccess resultMap ''mcp-proxy:tools/call:success''] w
              | Some other \<Rightarrow>
                  emit [OnMCPResponseError ''invalid tools/call result type'' ErrInternalError
                          ''mcp-proxy:tools/call:invalid_type''] w
              | None \<Rightarrow>
                  emit [OnMCPResponseError ''invalid tools/call response'' ErrInternalError
                          ''mcp-proxy:tools/call:invalid_response''] w)))"

subsection \<open>\<open>tools/list\<close>: the reply\<close>

definition onToolsListResponse :: "World \<Rightarrow> int \<Rightarrow> headers \<Rightarrow> Body \<Rightarrow> World" where
  "onToolsListResponse w statusCode responseHeaders responseBody =
     (if statusCode \<noteq> 200 then
        emit [Logf LogError ''Tools/list request failed with status %d: %s'',
              OnMCPResponseError ''backend tools/list failed'' ErrInternalError
                ''mcp-proxy:tools/list:backend_error''] w
      else
        (case unmarshalMap responseBody of
           Inl err \<Rightarrow>
             emit [Logf LogError ''Failed to parse tools/list response: %v'',
                   OnMCPResponseError err ErrInternalError ''mcp-proxy:tools/list:parse_error''] w
         | Inr response \<Rightarrow>
             (case map_of response ''result'' of
                Some (GoMap resultMap) \<Rightarrow>
                  emit [OnMCPResponseSuccess (applyAllowToolsFilter (httpCtx w) resultMap)
                          ''mcp-proxy:tools/list:success''] w
              | Some other \<Rightarrow>
                  emit [OnMCPResponseError ''invalid tools/list result type'' ErrInternalError
                          ''mcp-proxy:tools/list:invalid_type''] w
              | None \<Rightarrow>
                  emit [OnMCPResponseError ''invalid tools/list response'' ErrInternalError
                          ''mcp-proxy:tools/list:invalid_response''] w)))"

subsection \<open>Issuing the tool request\<close>

definition executeToolsList :: "Env \<Rightarrow> World \<Rightarrow> World \<times> GoResult" where
  "executeToolsList env w =
     (let listRequest = createToolsListRequest (mcp_proxy_cursor (httpCtx w)) in
      case authenticate env (handler w) (mcp_proxy_auth_info (httpCtx w))
             (requestHeaders (handler w))
             ''Failed to apply authentication for tools/list request: %v''
             ''Using modified URL for tools/list request: %s'' of
        (finalURL, hs, logs) \<Rightarrow>
          (emit (logs @ [RouteCall ''POST'' finalURL hs (GoMap listRequest) ToolsListCallback]) w,
           (case RouteCallResult env finalURL of None \<Rightarrow> NoError | Some err \<Rightarrow> Failed err)))"

text \<open>
  \<open>executeToolsCall\<close> reads the tool name and the arguments with unchecked type
  assertions, which panic when the key was never set. A function of the handler returns
  the world it leaves and its Go result: \<open>nil\<close>, an error, or a panic.
\<close>

definition executeToolsCall :: "Env \<Rightarrow> World \<Rightarrow> World \<times> GoResult" where
  "executeToolsCall env w =
     (case mcp_proxy_tool_name (httpCtx w) of
        None \<Rightarrow> (w, Panic ''interface conversion: interface {} is nil, not string'')
      | Some toolName \<Rightarrow>
          (case mcp_proxy_tool_args (httpCtx w) of
             None \<Rightarrow>
               (w, Panic ''interface conversion: interface {} is nil, not map[string]interface {}'')
           | Some arguments \<Rightarrow>
               (let callRequest = createToolsCallRequest toolName arguments in
                case authenticate env (handler w) (mcp_proxy_auth_info (httpCtx w))
                       (requestHeaders (handler w))
                       ''Failed to apply authentication for proxy tool call: %v''
                       ''Using modified URL for tools/call request: %s'' of
                  (finalURL, hs, logs) \<Rightarrow>
                    (emit (logs @ [RouteCall ''POST'' finalURL hs (GoMap callRequest)
                                     (ToolsCallCallback toolName)]) w,
                     (case RouteCallResult env finalURL of
                        None \<Rightarrow> NoError | Some err \<Rightarrow> Failed err)))))"

subsection \<open>The \<open>notifications/initialized\<close> step\<close>

text \<open>
  The callback of the notification. The status is only logged; the context is marked
  initialised and the operation stored in the context is executed. \<open>ResumeHttpRequest\<close>
  is deferred, so it runs last, also when \<open>executeToolsCall\<close> panics.
\<close>

definition runPendingOperation :: "Env \<Rightarrow> World \<Rightarrow> World \<times> GoResult" where
  "runPendingOperation env w =
     (case mcp_proxy_operation (httpCtx w) of
        None \<Rightarrow>
          (emit [Logf LogDebug ''MCP initialization completed, no pending operation''] w, NoError)
      | Some OpToolsList \<Rightarrow>
          (case executeToolsList env w of
             (w', Failed err) \<Rightarrow>
               (emit [Logf LogError ''Failed to execute tools/list: %v'',
                      OnMCPResponseError err ErrInternalError
                        ''mcp-proxy:tools/list:execution_error''] w', NoError)
           | (w', r) \<Rightarrow> (w', r))
      | Some OpToolsCall \<Rightarrow>
          (case executeToolsCall env w of
             (w', Failed err) \<Rightarrow>
               (emit [Logf LogError ''Failed to execute tools/call: %v'',
                      OnMCPResponseError err ErrInternalError
                        ''mcp-proxy:tools/call:execution_error''] w', NoError)
           | (w', r) \<Rightarrow> (w', r))
      | Some (OpOther operation) \<Rightarrow>
          (emit [Logf LogWarn ''Unknown MCP proxy operation: %v'',
                 OnMCPResponseError ''unknown operation'' ErrInternalError
                   ''mcp-proxy:unknown_operation''] w, NoError))"

definition onInitializedNotificationResponse ::
  "Env \<Rightarrow> World \<Rightarrow> int \<Rightarrow> headers \<Rightarrow> Body \<Rightarrow> World \<times> GoResult" where
  "onInitializedNotificationResponse env w statusCode responseHeaders responseBody =
     (let w1 = (if statusCode \<noteq> 200
                then emit [Logf LogWarn ''Initialized notification failed with status %d: %s''] w
                else emit [Logf LogDebug ''MCP initialization completed successfully''] w);
          w2 = w1\<lparr>httpCtx := (httpCtx w1)\<lparr>mcp_proxy_initialized := Some True\<rparr>\<rparr>
      in case runPendingOperation env w2 of
           (w3, r) \<Rightarrow> (emit [ResumeHttpRequest] w3, r))"

definition sendInitializedNotification :: "Env \<Rightarrow> World \<Rightarrow> ProxyAuthInfo option \<Rightarrow> World" where
  "sendInitializedNotification env w authInfo =
     (case sendMcpRequest env w (GoMap initializedNotification) authInfo
             InitializedNotificationCallback of
        (w', Failed err) \<Rightarrow>
          emit [Logf LogError ''Failed to send initialized notification: %v'',
                OnMCPResponseError err ErrInternalError
                  ''mcp-proxy:notifications/initialized:send_error''] w'
      | (w', r) \<Rightarrow> w')"

subsection \<open>The \<open>initialize\<close> step\<close>

text \<open>
  The callback of \<open>initialize\<close>. The comparison \<open>code == -32602\<close> is between the interface
  value found under \<open>code\<close> and the constant \<open>-32602\<close>, whose dynamic type is \<open>int\<close>.
\<close>

fun firstSessionHeader :: "headers \<Rightarrow> string option" where
  "firstSessionHeader [] = None"
| "firstSessionHeader (header # rest) =
     (if fst header = ''Mcp-Session-Id'' then Some (snd header) else firstSessionHeader rest)"

definition onInitializeResponse ::
  "Env \<Rightarrow> World \<Rightarrow> ProxyAuthInfo option \<Rightarrow> int \<Rightarrow> headers \<Rightarrow> Body \<Rightarrow> World" where
  "onInitializeResponse env w authInfo statusCode responseHeaders responseBody =
     (if statusCode \<noteq> 200 then
        emit [Logf LogError ''Initialize request failed with status %d: %s'',
              OnMCPResponseError ''backend initialization failed'' ErrInternalError
                ''mcp-proxy:initialize:backend_error''] w
      else
        (case unmarshalMap responseBody of
           Inl err \<Rightarrow>
             emit [Logf LogError ''Failed to parse initialize response: %v'',
                   OnMCPResponseError err ErrInternalError ''mcp-proxy:initialize:parse_error''] w
         | Inr response \<Rightarrow>
             (case map_of response ''error'' of
                Some errorObj \<Rightarrow>
                  (let w1 = emit [Logf LogError ''Backend initialization error: %v''] w;
                       versionIncompatible =
                         (case errorObj of
                            GoMap errorMap \<Rightarrow>
                              (case map_of errorMap ''code'' of
                                 Some code \<Rightarrow> code = GoInt (- 32602)
                               | None \<Rightarrow> False)
                          | _ \<Rightarrow> False)
                   in if versionIncompatible then
                        emit [OnMCPResponseError ''protocol version not supported by backend''
                                ErrInvalidParams ''mcp-proxy:initialize:version_incompatible''] w1
                      else
                        emit [OnMCPResponseError ''backend initialization failed''
                                ErrInternalError ''mcp-proxy:initialize:backend_error''] w1)
              | None \<Rightarrow>
                  (let w1 = (case firstSessionHeader responseHeaders of
                               None \<Rightarrow> w
                             | Some sid \<Rightarrow>
                                 emit [Logf LogInfo ''Received MCP session ID: %s'']
                                   (w\<lparr>handler := (handler w)\<lparr>sessionID := sid\<rparr>,
                                      httpCtx := (httpCtx w)\<lparr>mcp_proxy_session_id := Some sid\<rparr>\<rparr>))
                   in sendInitializedNotification env w1 authInfo))))"

definition Initialize :: "Env \<Rightarrow> World \<Rightarrow> ProxyAuthInfo option \<Rightarrow> World \<times> GoResult" where
  "Initialize env w authInfo =
     (let w0 = emit [Logf LogInfo ''Starting MCP protocol initialization for %s''] w;
          alreadyInitialized =
            (case mcp_proxy_initialized (httpCtx w0) of
               None \<Rightarrow> None
             | Some initialized \<Rightarrow> mcp_proxy_session_id (httpCtx w0))
      in case alreadyInitialized of
           Some sid \<Rightarrow>
             (emit [Logf LogDebug ''MCP proxy already initialized with session ID: %s'']
                (w0\<lparr>handler := (handler w0)\<lparr>sessionID := sid\<rparr>\<rparr>), NoError)
         | None \<Rightarrow>
             sendMcpRequest env w0 (GoMap createInitializeRequest) authInfo
               (InitializeCallback authInfo))"

definition ForwardToolsList ::
  "Env \<Rightarrow> World \<Rightarrow> string option \<Rightarrow> ProxyAuthInfo option \<Rightarrow> World \<times> GoResult" where
  "ForwardToolsList env w cursor authInfo =
     (let w0 = emit [Logf LogDebug ''Forwarding tools/list request to %s''] w;
          c1 = (httpCtx w0)\<lparr>mcp_proxy_operation := Some OpToolsList\<rparr>;
          c2 = (case cursor of None \<Rightarrow> c1 | Some c \<Rightarrow> c1\<lparr>mcp_proxy_cursor := Some c\<rparr>);
          c3 = (case authInfo of None \<Rightarrow> c2 | Some info \<Rightarrow> c2\<lparr>mcp_proxy_auth_info := Some info\<rparr>);
          w1 = w0\<lparr>httpCtx := c3\<rparr>
      in case mcp_proxy_initialized c3 of
           Some initialized \<Rightarrow> executeToolsList env w1
         | None \<Rightarrow> Initialize env w1 authInfo)"

definition ForwardToolsCall ::
  "Env \<Rightarrow> World \<Rightarrow> string \<Rightarrow> gomap \<Rightarrow> ProxyAuthInfo option \<Rightarrow> World \<times> GoResult" where
  "ForwardToolsCall env w toolName arguments authInfo =
     (let w0 = emit [Logf LogDebug ''Forwarding tools/call request for tool %s to %s''] w;
          c1 = (httpCtx w0)\<lparr>mcp_proxy_operation := Some OpToolsCall,
                              mcp_proxy_tool_name := Some toolName,
                              mcp_proxy_tool_args := Some arguments\<rparr>;
          c2 = (case authInfo of None \<Rightarrow> c1 | Some info \<Rightarrow> c1\<lparr>mcp_proxy_auth_info := Some info\<rparr>);
          w1 = w0\<lparr>httpCtx := c2\<rparr>
      in case mcp_proxy_initialized c2 of
           Some initialized \<Rightarrow> executeToolsCall env w1
         | None \<Rightarrow> Initialize env w1 authInfo)"


section \<open>The JSON-RPC codec\<close>

text \<open>
  Modelled from the spec: the JSON-RPC codec of \<open>pkg/mcp/utils\<close> (the parsing of the client
  frame and the building of the reply behind \<open>OnMCPResponseSuccess\<close> and
  \<open>OnMCPResponseError\<close>), which is not among the files at hand. The id of a client frame is
  an opaque JSON value, a string or an integer-valued number, or it is absent, in which
  case the frame is a notification. A success reply is
  \<open>{"jsonrpc":"2.0","id":<id>,"result":<value>}\<close>, an error reply is
  \<open>{"jsonrpc":"2.0","id":<id>,"error":{"code":<int>,"message":<string>}}\<close>. A notification
  is acknowledged with status 202 and no body; an unknown method of a request is answered
  with METHOD_NOT_FOUND; \<open>tools/list\<close> and \<open>tools/call\<close> go to the proxy layer. The frame
  below is one whose \<open>jsonrpc\<close> member was found to be \<open>"2.0"\<close>.
\<close>

datatype JsonRpcID = StringID string | NumberID int

record ClientFrame =
  frameId :: "JsonRpcID option"
  frameMethod :: string
  frameParams :: goval

text \<open>
  Modelled from the spec: the JSON value under which an id is re-emitted, of the same JSON type as
  it was received.
\<close>

definition idValue :: "JsonRpcID \<Rightarrow> goval" where
  "idValue i = (case i of StringID s \<Rightarrow> GoString s | NumberID n \<Rightarrow> GoInt n)"

text \<open>
  Modelled from the spec: METHOD_NOT_FOUND is \<open>-32601\<close>.
\<close>

definition ErrMethodNotFound :: int where
  "ErrMethodNotFound = -32601"

text \<open>
  Modelled from the spec: the success frame of the codec.
\<close>

definition buildSuccess :: "JsonRpcID \<Rightarrow> gomap \<Rightarrow> gomap" where
  "buildSuccess i result =
     [(''jsonrpc'', GoString ''2.0''), (''id'', idValue i), (''result'', GoMap result)]"

text \<open>
  Modelled from the spec: the error frame of the codec.
\<close>

definition buildError :: "JsonRpcID \<Rightarrow> int \<Rightarrow> string \<Rightarrow> gomap" where
  "buildError i code message =
     [(''jsonrpc'', GoString ''2.0''), (''id'', idValue i),
      (''error'', GoMap [(''code'', GoInt code), (''message'', GoString message)])]"

datatype Dispatch = Ack202 | LocalReply gomap | ToProxy McpProxyOperation

text \<open>
  Modelled from the spec: the dispatch of a parsed client frame.
\<close>

definition dispatchClientFrame :: "ClientFrame \<Rightarrow> Dispatch" where
  "dispatchClientFrame f =
     (case frameId f of
        None \<Rightarrow> Ack202
      | Some i \<Rightarrow>
          if frameMethod f = ''tools/list'' then ToProxy OpToolsList
          else if frameMethod f = ''tools/call'' then ToProxy OpToolsCall
          else LocalReply (buildError i ErrMethodNotFound ''method not found''))"

text \<open>
  The reply frame that an effect of the proxy layer becomes, for the id kept in the
  request context; the frames that a trace delivers to the client.
\<close>

definition replyFrame :: "JsonRpcID option \<Rightarrow> Effect \<Rightarrow> gomap option" where
  "replyFrame clientId e =
     (case clientId of
        None \<Rightarrow> None
      | Some i \<Rightarrow>
          (case e of
             OnMCPResponseSuccess result debugInfo \<Rightarrow> Some (buildSuccess i result)
           | OnMCPResponseError message code debugInfo \<Rightarrow> Some (buildError i code message)
           | _ \<Rightarrow> None))"

definition clientFrames :: "JsonRpcID option \<Rightarrow> Effect list \<Rightarrow> gomap list" where
  "clientFrames clientId tr = List.map_filter (replyFrame clientId) tr"

section \<open>The SSE accumulator\<close>

text \<open>
  Modelled from the spec: the streaming-response handler of \<open>sse_proxy.go\<close>, which is not
  among the files at hand. Each invocation appends the bytes that arrived to \<open>sseBuffer\<close>,
  drains the event parser and dispatches the events on \<open>sseState\<close>; the accumulated bytes
  that no event consumed may not exceed 100 MiB, and exceeding the bound injects one
  BUFFER_OVERFLOW error frame (code \<open>-32603\<close>) and makes the request FAILED. After DONE or
  FAILED nothing is injected. The event parser and the dispatch of one event are
  parameters: the parser returns the complete events and the bytes left over, the
  dispatch returns the next state and the frames it injects.
\<close>

datatype SSEState =
    NONE | WAIT_ENDPOINT | SENDING_INIT | WAIT_INIT_RESP | SENDING_NOTIFY | WAIT_NOTIFY_RESP
  | SENDING_TOOL | WAIT_TOOL_RESP | DONE | FAILED

datatype ErrorKind = PROTOCOL_CONTENT_TYPE | BUFFER_OVERFLOW | BACKEND_HTTP | BACKEND_PARSE | TIMEOUT

datatype Injection = InjectResult JsonRpcID gomap | InjectError JsonRpcID ErrorKind int

record SSEContext =
  sseState :: SSEState
  sseBuffer :: string
  jsonRpcId :: JsonRpcID

record 'e SSEMachine =
  drainEvents :: "string \<Rightarrow> 'e list \<times> string"
  onEvent :: "SSEState \<Rightarrow> 'e \<Rightarrow> SSEState \<times> Injection list"

text \<open>
  Modelled from the spec: the bound of 100 MiB on \<open>sseBuffer\<close>.
\<close>

definition MaxSSEBufferSize :: nat where
  "MaxSSEBufferSize = 100 * 1024 * 1024"

definition terminal :: "SSEState \<Rightarrow> bool" where
  "terminal s = (s = DONE \<or> s = FAILED)"

text \<open>
  Modelled from the spec: the events drained from one chunk are dispatched in stream order, and
  none is dispatched once the request is DONE or FAILED.
\<close>

fun dispatchEvents ::
  "(SSEState \<Rightarrow> 'e \<Rightarrow> SSEState \<times> Injection list) \<Rightarrow> SSEState \<Rightarrow> 'e list
     \<Rightarrow> SSEState \<times> Injection list" where
  "dispatchEvents f s [] = (s, [])"
| "dispatchEvents f s (e # es) =
     (if terminal s then (s, [])
      else (case f s e of
              (s', injected) \<Rightarrow>
                (case dispatchEvents f s' es of
                   (s'', injected') \<Rightarrow> (s'', injected @ injected'))))"

text \<open>
  Modelled from the spec: one invocation of the streaming-response hook of the SSE path.
\<close>

definition handleSSEStreamingResponse ::
  "'e SSEMachine \<Rightarrow> SSEContext \<Rightarrow> string \<Rightarrow> SSEContext \<times> Injection list" where
  "handleSSEStreamingResponse m ctx chunk =
     (if sseState ctx = NONE \<or> terminal (sseState ctx) then (ctx, [])
      else (case drainEvents m (sseBuffer ctx @ chunk) of
              (events, rest) \<Rightarrow>
                (case dispatchEvents (onEvent m) (sseState ctx) events of
                   (s, injected) \<Rightarrow>
                     if terminal s then (ctx\<lparr>sseState := s, sseBuffer := []\<rparr>, injected)
                     else if MaxSSEBufferSize < length rest then
                       (ctx\<lparr>sseState := FAILED, sseBuffer := []\<rparr>,
                        injected @ [InjectError (jsonRpcId ctx) BUFFER_OVERFLOW ErrInternalError])
                     else (ctx\<lparr>sseState := s, sseBuffer := rest\<rparr>, injected))))"

text \<open>
  Modelled from the spec: the hook is invoked once for each chunk, in order.
\<close>

fun feedChunks ::
  "'e SSEMachine \<Rightarrow> SSEContext \<Rightarrow> string list \<Rightarrow> SSEContext \<times> Injection list" where
  "feedChunks m ctx [] = (ctx, [])"
| "feedChunks m ctx (chunk # chunks) =
     (case handleSSEStreamingResponse m ctx chunk of
        (ctx', injected) \<Rightarrow>
          (case feedChunks m ctx' chunks of
             (ctx'', injected') \<Rightarrow> (ctx'', injected @ injected')))"

text \<open>No prefix of the stream, appended to the buffer, holds a complete event.\<close>

definition noEventIn :: "'e SSEMachine \<Rightarrow> string \<Rightarrow> string list \<Rightarrow> bool" where
  "noEventIn m buf chunks =
     (\<forall>k \<le> length chunks.
        drainEvents m (buf @ concat (take k chunks)) = ([], buf @ concat (take k chunks)))"


section \<open>Notions used to state the properties of the exchange\<close>

text \<open>
  The result that \<open>wrapBackendError\<close> forwards when the first content entry has a text: the
  result map of the backend with the text of that entry prefixed.
\<close>

definition wrappedResult :: "Env \<Rightarrow> gomap \<Rightarrow> gomap \<Rightarrow> goval list \<Rightarrow> goval \<Rightarrow> gomap" where
  "wrappedResult env resultMap textContent others text =
     AList.update ''content''
       (GoSlice (GoMap (AList.update ''text'' (GoString (''Backend error: '' @ sprintV env text))
                          textContent) # others))
       resultMap"

text \<open>The request and the callback of the operation that is pending in a context.\<close>

definition pendingRequest :: "HttpContext \<Rightarrow> (goval \<times> Callback) option" where
  "pendingRequest c =
     (case mcp_proxy_operation c of
        Some OpToolsList \<Rightarrow>
          Some (GoMap (createToolsListRequest (mcp_proxy_cursor c)), ToolsListCallback)
      | Some OpToolsCall \<Rightarrow>
          (case (mcp_proxy_tool_name c, mcp_proxy_tool_args c) of
             (Some toolName, Some arguments) \<Rightarrow>
               Some (GoMap (createToolsCallRequest toolName arguments), ToolsCallCallback toolName)
           | _ \<Rightarrow> None)
      | _ \<Rightarrow> None)"

section \<open>Concrete inputs\<close>

definition toolNamed :: "string \<Rightarrow> goval" where
  "toolNamed n = GoMap [(''name'', GoString n), (''description'', GoString ''d'')]"

definition demoContext :: "string set option \<Rightarrow> string option \<Rightarrow> HttpContext" where
  "demoContext allow hdr =
     \<lparr> mcp_proxy_initialized = Some True, mcp_proxy_session_id = None,
       mcp_proxy_tool_name = None, mcp_proxy_tool_args = None,
       mcp_proxy_operation = Some OpToolsList, mcp_proxy_cursor = None,
       mcp_proxy_auth_info = None, mcp_proxy_allow_tools = allow,
       mcp_proxy_allow_tools_header = hdr \<rparr>"

definition demoResult :: gomap where
  "demoResult =
     [(''tools'', GoSlice [toolNamed ''A'', toolNamed ''B'', GoString ''x'', toolNamed ''C'']),
      (''nextCursor'', GoString ''n1'')]"

text \<open>
  A server with three security schemes, an environment in which \<open>ApplySecurity\<close> runs the
  repository's own \<open>ApplyAuthentication\<close>, and backend replies taken from the tests.
\<close>

definition demoScheme :: "string \<Rightarrow> string \<Rightarrow> string \<Rightarrow> string \<Rightarrow> string \<Rightarrow> SecurityScheme" where
  "demoScheme i t l n d =
     \<lparr> ID = i, Type = t, In = l, Name = n, Scheme = [], DefaultCredential = d \<rparr>"

definition demoServer :: McpProxyServer where
  "demoServer =
     \<lparr> ServerName = ''proxy-test-server'',
       securitySchemes =
         [(''BackendApiKey'', demoScheme ''BackendApiKey'' ''apiKey'' ''header'' ''X-API-Key'' []),
          (''ServiceKey'',
             demoScheme ''ServiceKey'' ''apiKey'' ''header'' ''X-Service-Key'' ''default-service-key''),
          (''QueryKey'', demoScheme ''QueryKey'' ''apiKey'' ''query'' ''api_key'' ''secret'')] \<rparr>"

definition demoURL :: URL where
  "demoURL =
     \<lparr> UrlScheme = ''http'', Host = ''backend.example.com'', EscapedPath = ''/mcp'',
       RawQuery = [], Fragment = [] \<rparr>"

definition demoAuthContext :: "headers \<Rightarrow> string \<Rightarrow> ProxyAuthContext" where
  "demoAuthContext hs passthrough =
     \<lparr> Headers = hs, ParsedURL = demoURL, RequestBody = [], PassthroughCredential = passthrough \<rparr>"

definition demoApplySecurity ::
  "SecurityRequirement \<Rightarrow> McpProxyServer \<Rightarrow> AuthRequestContext \<Rightarrow> string + AuthRequestContext" where
  "demoApplySecurity req server actx =
     (case ApplyAuthentication server
             \<lparr> Headers = ArcHeaders actx, ParsedURL = ArcParsedURL actx,
               RequestBody = ArcRequestBody actx,
               PassthroughCredential =
                 (if SrPassthrough req then ArcPassthroughCredential actx else []) \<rparr>
             (SrID req) of
        Inl err \<Rightarrow> Inl err
      | Inr c \<Rightarrow> Inr (actx\<lparr>ArcHeaders := Headers c, ArcParsedURL := ParsedURL c\<rparr>))"

definition demoEnv :: Env where
  "demoEnv =
     \<lparr> urlParse = (\<lambda>s. Inr demoURL), ApplySecurity = demoApplySecurity,
       RouteCallResult = (\<lambda>u. None), PostResult = (\<lambda>u. None),
       verb = (\<lambda>v. ''?'') \<rparr>"

definition demoHandler :: McpProtocolHandler where
  "demoHandler = \<lparr> backendURL = ''http://backend.example.com/mcp'', timeout = 5000, sessionID = [] \<rparr>"

definition demoWorld :: "HttpContext \<Rightarrow> World" where
  "demoWorld c = \<lparr> handler = demoHandler, httpCtx = c, trace = [] \<rparr>"

definition versionErrorBody :: Body where
  "versionErrorBody =
     Json (GoMap
       [(''jsonrpc'', GoString ''2.0''),
        (''id'', GoFloat64 1),
        (''error'', GoMap
           [(''code'', GoFloat64 (- 32602)),
            (''message'', GoString ''Unsupported protocol version'')])])"

definition toolErrorBody :: Body where
  "toolErrorBody =
     Json (GoMap
       [(''jsonrpc'', GoString ''2.0''),
        (''id'', GoFloat64 3),
        (''result'', GoMap
           [(''content'', GoSlice [GoMap [(''type'', GoString ''text''), (''text'', GoString ''x'')]]),
            (''isError'', GoBool True)])])"

definition demoCallContext :: "ProxyAuthInfo option \<Rightarrow> HttpContext" where
  "demoCallContext info =
     \<lparr> mcp_proxy_initialized = None, mcp_proxy_session_id = None,
       mcp_proxy_tool_name = Some ''get_product'',
       mcp_proxy_tool_args = Some [(''product_id'', GoString ''12345'')],
       mcp_proxy_operation = Some OpToolsCall, mcp_proxy_cursor = None,
       mcp_proxy_auth_info = info, mcp_proxy_allow_tools = None,
       mcp_proxy_allow_tools_header = None \<rparr>"

definition demoAuthInfo :: "string \<Rightarrow> string \<Rightarrow> ProxyAuthInfo" where
  "demoAuthInfo schemeID passthrough =
     \<lparr> SecuritySchemeID = schemeID, PaiPassthroughCredential = passthrough, Server = demoServer \<rparr>"

definition toolsListBody :: Body where
  "toolsListBody =
     Json (GoMap
       [(''jsonrpc'', GoString ''2.0''),
        (''id'', GoFloat64 2),
        (''result'', GoMap [(''tools'', GoSlice [GoMap [(''name'', GoString ''A'')],
                                                  GoMap [(''name'', GoString ''B'')]])])])"

definition toolsListFrame :: "JsonRpcID \<Rightarrow> gomap" where
  "toolsListFrame i =
     [(''jsonrpc'', GoString ''2.0''),
      (''id'', idValue i),
      (''result'', GoMap [(''tools'', GoSlice [GoMap [(''name'', GoString ''A'')]])])]"

definition demoMachine :: "unit SSEMachine" where
  "demoMachine = \<lparr> drainEvents = (\<lambda>buf. ([], buf)), onEvent = (\<lambda>s e. (s, [])) \<rparr>"

definition demoSSEContext :: SSEContext where
  "demoSSEContext = \<lparr> sseState = WAIT_ENDPOINT, sseBuffer = [], jsonRpcId = NumberID 42 \<rparr>"


section \<open>Properties of the allow-list filter\<close>

lemma filterToolsLoop_step:
  "filterToolsLoop A H (t # ts) acc =
   filterToolsLoop A H ts (if inEveryNonEmptyAllowSet A H t then acc @ [t] else acc)"
  by (simp add: inEveryNonEmptyAllowSet_def toolNameOf_def split: option.splits goval.splits)

lemma filterToolsLoop_filter:
  "filterToolsLoop A H ts acc = acc @ filter (inEveryNonEmptyAllowSet A H) ts"
proof (induction ts arbitrary: acc)
  case Nil
  show ?case by simp
next
  case (Cons t ts)
  show ?case
    unfolding filterToolsLoop_step by (simp add: Cons)
qed

lemma headerToolsLoop_set:
  "headerToolsLoop ps acc = acc \<union> set (filter (\<lambda>t. t \<noteq> []) (map TrimSpace ps))"
  by (induction ps arbitrary: acc) (auto simp: Let_def)

lemma map_of_copyEntries:
  "distinct (map fst m) \<Longrightarrow>
   map_of (copyEntries m out) k = (case map_of m k of None \<Rightarrow> map_of out k | Some v \<Rightarrow> Some v)"
proof (induction m arbitrary: out)
  case Nil
  show ?case by simp
next
  case (Cons kv m)
  obtain k' v' where kv: "kv = (k', v')" by (cases kv)
  from Cons.prems kv have d: "distinct (map fst m)" and nk: "k' \<notin> fst ` set m"
    by auto
  from nk have "map_of m k' = None"
    by (simp add: map_of_eq_None_iff)
  then show ?case
    using Cons.IH [OF d, of "AList.update k' v' out"] kv
    by (auto simp: update_conv' split: option.splits)
qed

lemma SplitSeq_nonempty: "SplitSeq s sep \<noteq> []"
  by (induction s) (auto split: list.splits)

lemma joinWith_Cons_piece:
  "joinWith sep ((c # p) # ps) = c # joinWith sep (p # ps)"
  by (cases ps) auto

lemma joinWith_SplitSeq: "joinWith sep (SplitSeq s sep) = s"
proof (induction s)
  case Nil
  show ?case by simp
next
  case (Cons c cs)
  obtain p ps where sp: "SplitSeq cs sep = p # ps"
    using SplitSeq_nonempty [of cs sep] by (cases "SplitSeq cs sep") auto
  show ?case
  proof (cases "c = sep")
    case True
    with Cons sp show ?thesis by simp
  next
    case False
    with Cons sp show ?thesis by (simp add: joinWith_Cons_piece)
  qed
qed

lemma SplitSeq_no_sep: "p \<in> set (SplitSeq s sep) \<Longrightarrow> sep \<notin> set p"
  by (induction s arbitrary: p) (auto split: if_splits list.splits)


lemma allowToolsFromHeaderOfContext_eq:
  "allowToolsFromHeaderOfContext ctx =
     (case mcp_proxy_allow_tools_header ctx of None \<Rightarrow> {} | Some headerStr \<Rightarrow> headerAllowSet headerStr)"
  by (simp add: allowToolsFromHeaderOfContext_def headerAllowSet_def headerToolsLoop_set
      split: option.splits)

lemma applyAllowToolsFilter_no_array:
  "toolsArrayOf resultMap = None \<Longrightarrow> applyAllowToolsFilter ctx resultMap = resultMap"
  by (auto simp: applyAllowToolsFilter_def toolsArrayOf_def Let_def split: option.splits goval.splits)

lemma applyAllowToolsFilter_array:
  assumes "toolsArrayOf resultMap = Some toolsArray"
    and "\<not> (allowToolsOfContext ctx = {} \<and> allowToolsFromHeaderOfContext ctx = {})"
  shows "applyAllowToolsFilter ctx resultMap =
     AList.update ''tools''
       (GoSlice (filter (inEveryNonEmptyAllowSet (allowToolsOfContext ctx)
                   (allowToolsFromHeaderOfContext ctx)) toolsArray))
       (copyEntries resultMap [])"
proof -
  from assms(1) have "map_of resultMap ''tools'' = Some (GoSlice toolsArray)"
    by (auto simp: toolsArrayOf_def split: option.splits goval.splits)
  with assms(2) show ?thesis
    by (auto simp: applyAllowToolsFilter_def Let_def filterToolsLoop_filter)
qed

text \<open>
  Claim C10. When the result map has no \<open>tools\<close> key, or the value under \<open>tools\<close> is not an
  array, \<open>applyAllowToolsFilter\<close> returns the result map as it received it, whatever the
  two allow-sets hold.
\<close>

theorem applyAllowToolsFilter_unchanged_without_tools_array:
  "toolsArrayOf resultMap = None \<Longrightarrow> applyAllowToolsFilter ctx resultMap = resultMap"
  by (rule applyAllowToolsFilter_no_array)

text \<open>
  Claim C2. The header allow-set is the set of the non-empty trimmed pieces of the header
  between commas. With both allow-sets empty the filter returns its input. Otherwise the
  \<open>tools\<close> array of the output is the \<open>tools\<close> array of the input restricted, in its
  original order, to the entries whose name is in every non-empty allow-set, and every
  other key of the result keeps its value.
\<close>

theorem applyAllowToolsFilter_allow_sets:
  assumes "distinct (map fst resultMap)"
  shows "allowToolsFromHeaderOfContext ctx =
           (case mcp_proxy_allow_tools_header ctx of
              None \<Rightarrow> {} | Some headerStr \<Rightarrow> headerAllowSet headerStr)
       \<and> (allowToolsOfContext ctx = {} \<and> allowToolsFromHeaderOfContext ctx = {}
            \<longrightarrow> applyAllowToolsFilter ctx resultMap = resultMap)
       \<and> (\<not> (allowToolsOfContext ctx = {} \<and> allowToolsFromHeaderOfContext ctx = {})
            \<longrightarrow> (\<forall>toolsArray. toolsArrayOf resultMap = Some toolsArray \<longrightarrow>
                  toolsArrayOf (applyAllowToolsFilter ctx resultMap) =
                    Some (filter (inEveryNonEmptyAllowSet (allowToolsOfContext ctx)
                                    (allowToolsFromHeaderOfContext ctx)) toolsArray)
                \<and> (\<forall>k. k \<noteq> ''tools'' \<longrightarrow>
                      map_of (applyAllowToolsFilter ctx resultMap) k = map_of resultMap k)))"
proof (intro conjI impI allI)
  show "allowToolsFromHeaderOfContext ctx =
           (case mcp_proxy_allow_tools_header ctx of
              None \<Rightarrow> {} | Some headerStr \<Rightarrow> headerAllowSet headerStr)"
    by (rule allowToolsFromHeaderOfContext_eq)
next
  assume "allowToolsOfContext ctx = {} \<and> allowToolsFromHeaderOfContext ctx = {}"
  then show "applyAllowToolsFilter ctx resultMap = resultMap"
    by (simp add: applyAllowToolsFilter_def)
next
  fix toolsArray
  assume ne: "\<not> (allowToolsOfContext ctx = {} \<and> allowToolsFromHeaderOfContext ctx = {})"
    and arr: "toolsArrayOf resultMap = Some toolsArray"
  show "toolsArrayOf (applyAllowToolsFilter ctx resultMap) =
          Some (filter (inEveryNonEmptyAllowSet (allowToolsOfContext ctx)
                          (allowToolsFromHeaderOfContext ctx)) toolsArray)"
    unfolding applyAllowToolsFilter_array [OF arr ne]
    by (simp add: toolsArrayOf_def update_conv')
next
  fix toolsArray k
  assume ne: "\<not> (allowToolsOfContext ctx = {} \<and> allowToolsFromHeaderOfContext ctx = {})"
    and arr: "toolsArrayOf resultMap = Some toolsArray"
    and k: "k \<noteq> ''tools''"
  show "map_of (applyAllowToolsFilter ctx resultMap) k = map_of resultMap k"
    unfolding applyAllowToolsFilter_array [OF arr ne]
    using k by (simp add: update_conv' map_of_copyEntries [OF assms] split: option.splits)
qed

lemma demo_header: "headerAllowSet '' A , C,,'' = {''A'', ''C''}"
  by code_simp

lemma demo_names:
  "toolNameOf (toolNamed n) = Some n" "toolNameOf (GoString s) = None"
  by (simp_all add: toolNameOf_def toolNamed_def)

theorem applyAllowToolsFilter_allow_sets_witness:
  "distinct (map fst demoResult)
   \<and> toolsArrayOf (applyAllowToolsFilter (demoContext (Some {''A'', ''B''}) (Some '' A , C,,'')) demoResult)
       = Some [toolNamed ''A'']
   \<and> map_of (applyAllowToolsFilter (demoContext (Some {''A'', ''B''}) (Some '' A , C,,'')) demoResult)
        ''nextCursor'' = Some (GoString ''n1'')
   \<and> applyAllowToolsFilter (demoContext None (Some '' ,'')) demoResult = demoResult"
proof -
  let ?c1 = "demoContext (Some {''A'', ''B''}) (Some '' A , C,,'')"
  let ?c2 = "demoContext None (Some '' ,'')"
  have d: "distinct (map fst demoResult)"
    by (simp add: demoResult_def)
  have e: "headerAllowSet '' ,'' = {}"
    by code_simp
  have arr: "toolsArrayOf demoResult =
      Some [toolNamed ''A'', toolNamed ''B'', GoString ''x'', toolNamed ''C'']"
    by (simp add: toolsArrayOf_def demoResult_def)
  note t1 = applyAllowToolsFilter_allow_sets [OF d, of ?c1]
  note t2 = applyAllowToolsFilter_allow_sets [OF d, of ?c2]
  have A1: "allowToolsOfContext ?c1 = {''A'', ''B''}"
    by (simp add: allowToolsOfContext_def demoContext_def)
  have H1: "allowToolsFromHeaderOfContext ?c1 = {''A'', ''C''}"
    using t1 by (simp add: demoContext_def demo_header)
  have A2: "allowToolsOfContext ?c2 = {}"
    by (simp add: allowToolsOfContext_def demoContext_def)
  have H2: "allowToolsFromHeaderOfContext ?c2 = {}"
    using t2 by (simp add: demoContext_def e)
  have ne: "\<not> (allowToolsOfContext ?c1 = {} \<and> allowToolsFromHeaderOfContext ?c1 = {})"
    by (simp add: A1)
  from t1 ne arr
  have r1: "toolsArrayOf (applyAllowToolsFilter ?c1 demoResult) =
      Some (filter (inEveryNonEmptyAllowSet {''A'', ''B''} {''A'', ''C''})
              [toolNamed ''A'', toolNamed ''B'', GoString ''x'', toolNamed ''C''])"
    and r2: "map_of (applyAllowToolsFilter ?c1 demoResult) ''nextCursor''
               = map_of demoResult ''nextCursor''"
    unfolding A1 H1 by simp_all
  have f: "filter (inEveryNonEmptyAllowSet {''A'', ''B''} {''A'', ''C''})
              [toolNamed ''A'', toolNamed ''B'', GoString ''x'', toolNamed ''C'']
           = [toolNamed ''A'']"
    by (simp add: inEveryNonEmptyAllowSet_def demo_names)
  from t2 A2 H2 have r3: "applyAllowToolsFilter ?c2 demoResult = demoResult"
    by blast
  show ?thesis
    using d r1 r2 r3 unfolding f by (simp add: demoResult_def)
qed

theorem applyAllowToolsFilter_unchanged_without_tools_array_witness:
  "toolsArrayOf [(''tools'', GoString ''none''), (''nextCursor'', GoString ''n1'')] = None
   \<and> applyAllowToolsFilter (demoContext (Some {''A''}) (Some ''B''))
        [(''tools'', GoString ''none''), (''nextCursor'', GoString ''n1'')]
      = [(''tools'', GoString ''none''), (''nextCursor'', GoString ''n1'')]
   \<and> toolsArrayOf [(''nextCursor'', GoString ''n1'')] = None
   \<and> applyAllowToolsFilter (demoContext (Some {''A''}) (Some ''B'')) [(''nextCursor'', GoString ''n1'')]
      = [(''nextCursor'', GoString ''n1'')]"
proof -
  have a: "toolsArrayOf [(''tools'', GoString ''none''), (''nextCursor'', GoString ''n1'')] = None"
    by (simp add: toolsArrayOf_def)
  have b: "toolsArrayOf [(''nextCursor'', GoString ''n1'')] = None"
    by (simp add: toolsArrayOf_def)
  show ?thesis
    using a b applyAllowToolsFilter_unchanged_without_tools_array [OF a]
      applyAllowToolsFilter_unchanged_without_tools_array [OF b]
    by simp
qed


section \<open>Properties of the StreamableHTTP exchange\<close>

lemma request_ids:
  "map_of createInitializeRequest ''id'' = Some (GoInt 1)"
  "map_of initializedNotification ''id'' = None"
  "map_of (createToolsListRequest cursor) ''id'' = Some (GoInt 2)"
  "map_of (createToolsCallRequest toolName arguments) ''id'' = Some (GoInt 3)"
  by (simp_all add: createInitializeRequest_def initializedNotification_def
      createToolsListRequest_def createToolsCallRequest_def)

lemma map_of_remarshalMap:
  "map_of (remarshalMap m) k = map_option remarshal (map_of m k)"
  by (induction m) (auto simp: remarshalMap_def)

lemma unmarshalMap_Json_GoMap [simp]: "unmarshalMap (Json (GoMap m)) = Inr m"
  by (simp add: unmarshalMap_def)

lemma map_of_update_other:
  "k \<noteq> k' \<Longrightarrow> map_of (AList.update k' v m) k = map_of m k"
  by (simp add: update_conv')

lemma addSourceAttribution_result_indep:
  "map_of (addSourceAttribution env (AList.update ''id'' x response)) ''result''
   = map_of (addSourceAttribution env response) ''result''"
  by (simp add: addSourceAttribution_def update_conv' Let_def
      split: option.splits goval.splits list.splits)

lemma reportsToolError_id:
  "reportsToolError (Json (GoMap (AList.update ''id'' x response)))
   = reportsToolError (Json (GoMap response))"
  by (simp add: reportsToolError_def update_conv')

lemma wrapBackendError_id:
  "wrapBackendError env w (Json (GoMap (AList.update ''id'' x response)))
   = wrapBackendError env w (Json (GoMap response))"
  by (simp add: wrapBackendError_def map_of_remarshalMap addSourceAttribution_result_indep
      Let_def)

lemma onToolsCallResponse_id:
  "onToolsCallResponse env w statusCode hs (Json (GoMap (AList.update ''id'' x response)))
   = onToolsCallResponse env w statusCode hs (Json (GoMap response))"
  by (simp add: onToolsCallResponse_def reportsToolError_id wrapBackendError_id update_conv')

lemma onToolsListResponse_id:
  "onToolsListResponse w statusCode hs (Json (GoMap (AList.update ''id'' x response)))
   = onToolsListResponse w statusCode hs (Json (GoMap response))"
  by (simp add: onToolsListResponse_def update_conv')

lemma decoded_map_of:
  "list_all (\<lambda>kv. decoded (snd kv)) m \<Longrightarrow> map_of m k = Some v \<Longrightarrow> decoded v"
  by (induction m) (auto split: if_splits)

lemma decoded_not_int: "decoded v \<Longrightarrow> v \<noteq> GoInt n"
  by (cases v) auto

text \<open>
  The branch for an incompatible version is there: a code held as an \<open>int\<close> reaches it.
  No body that was decoded from JSON holds one.
\<close>

lemma onInitializeResponse_int_code_is_invalid_params:
  "onInitializeResponse env w authInfo 200 responseHeaders
     (Json (GoMap [(''error'', GoMap [(''code'', GoInt (- 32602))])]))
   = emit [Logf LogError ''Backend initialization error: %v'',
           OnMCPResponseError ''protocol version not supported by backend'' ErrInvalidParams
             ''mcp-proxy:initialize:version_incompatible''] w"
  by (simp add: onInitializeResponse_def Let_def emit_def)

text \<open>
  Claim C5. The claim asks for an INVALID_PARAMS reply when the backend answers
  \<open>initialize\<close> with an error object whose code is \<open>-32602\<close>. The callback compares the
  decoded code, a \<open>float64\<close>, with an \<open>int\<close> constant, so for every body that
  \<open>json.Unmarshal\<close> can produce the comparison is false: an error object of any code, also
  \<open>-32602\<close>, gives the INTERNAL_ERROR reply "backend initialization failed".
\<close>

theorem onInitializeResponse_version_error_is_internal_error:
  assumes "decoded (GoMap response)"
    and "map_of response ''error'' = Some errorObj"
  shows "onInitializeResponse env w authInfo 200 responseHeaders (Json (GoMap response)) =
           emit [Logf LogError ''Backend initialization error: %v'',
                 OnMCPResponseError ''backend initialization failed'' ErrInternalError
                   ''mcp-proxy:initialize:backend_error''] w"
proof -
  from assms have d: "decoded errorObj"
    by (auto dest: decoded_map_of)
  have "\<not> (case errorObj of
              GoMap errorMap \<Rightarrow>
                (case map_of errorMap ''code'' of
                   Some code \<Rightarrow> code = GoInt (- 32602)
                 | None \<Rightarrow> False)
            | _ \<Rightarrow> False)"
  proof (cases errorObj)
    case (GoMap errorMap)
    with d have "list_all (\<lambda>kv. decoded (snd kv)) errorMap" by simp
    then have "\<And>code. map_of errorMap ''code'' = Some code \<Longrightarrow> code \<noteq> GoInt (- 32602)"
      by (blast dest: decoded_map_of decoded_not_int)
    with GoMap show ?thesis by (auto split: option.splits)
  qed simp_all
  then show ?thesis
    using assms(2) by (simp add: onInitializeResponse_def Let_def emit_def)
qed

theorem onInitializeResponse_version_error_is_internal_error_witness:
  "trace (onInitializeResponse demoEnv (demoWorld (demoContext None None)) None 200
            [(''Content-Type'', ''application/json'')] versionErrorBody)
   = [Logf LogError ''Backend initialization error: %v'',
      OnMCPResponseError ''backend initialization failed'' (- 32603)
        ''mcp-proxy:initialize:backend_error'']"
proof -
  have d: "decoded (GoMap
       [(''jsonrpc'', GoString ''2.0''),
        (''id'', GoFloat64 1),
        (''error'', GoMap
           [(''code'', GoFloat64 (- 32602)),
            (''message'', GoString ''Unsupported protocol version'')])])"
    by simp
  show ?thesis
    unfolding versionErrorBody_def
    by (subst onInitializeResponse_version_error_is_internal_error [OF d])
       (simp_all add: emit_def demoWorld_def ErrInternalError_def)
qed

text \<open>
  Claim C9. The claim asks that an \<open>apiKey\<close> scheme located in the query sets the query
  parameter on the outbound URL. In \<open>ApplyAuthentication\<close> the branch for \<open>query\<close> is empty:
  with a credential at hand the call succeeds and returns the request as it was, URL and
  headers included.
\<close>

theorem ApplyAuthentication_apiKey_query_changes_nothing:
  assumes "GetSecurityScheme s schemeID = Some scheme"
    and "Type scheme = ''apiKey''" and "In scheme = ''query''"
    and "chosenCredential scheme ctx \<noteq> []"
  shows "ApplyAuthentication s ctx schemeID = Inr ctx"
  using assms by (simp add: ApplyAuthentication_def Let_def)

theorem ApplyAuthentication_apiKey_query_changes_nothing_witness:
  "ApplyAuthentication demoServer (demoAuthContext [(''Content-Type'', ''application/json'')] [])
     ''QueryKey''
   = Inr (demoAuthContext [(''Content-Type'', ''application/json'')] [])
   \<and> RawQuery (ParsedURL (demoAuthContext [(''Content-Type'', ''application/json'')] [])) = []"
proof -
  let ?scheme = "demoScheme ''QueryKey'' ''apiKey'' ''query'' ''api_key'' ''secret''"
  let ?ctx = "demoAuthContext [(''Content-Type'', ''application/json'')] []"
  have g: "GetSecurityScheme demoServer ''QueryKey'' = Some ?scheme"
    by (simp add: GetSecurityScheme_def demoServer_def)
  have t: "Type ?scheme = ''apiKey''" and l: "In ?scheme = ''query''"
    by (simp_all add: demoScheme_def)
  have c: "chosenCredential ?scheme ?ctx \<noteq> []"
    by (simp add: chosenCredential_def demoScheme_def demoAuthContext_def)
  show ?thesis
    using ApplyAuthentication_apiKey_query_changes_nothing [OF g t l c]
    by (simp add: demoAuthContext_def demoURL_def)
qed

lemma remarshal_decoded: "decoded v \<Longrightarrow> remarshal v = v"
proof (induction v)
  case (GoSlice vs)
  then show ?case by (auto simp: list_all_iff intro: map_idI)
next
  case (GoMap kvs)
  then have "\<And>kv. kv \<in> set kvs \<Longrightarrow> (fst kv, remarshal (snd kv)) = kv"
    by (auto simp: list_all_iff snds.simps)
  then show ?case by (auto intro: map_idI)
qed simp_all

lemma remarshalMap_decoded: "decoded (GoMap m) \<Longrightarrow> remarshalMap m = m"
  using remarshal_decoded [of "GoMap m"] by (simp add: remarshalMap_def)

lemma list_all_update:
  "list_all P m \<Longrightarrow> P (k, v) \<Longrightarrow> list_all P (AList.update k v m)"
  by (induction m) auto

lemma decoded_update: "decoded (GoMap m) \<Longrightarrow> decoded v \<Longrightarrow> decoded (GoMap (AList.update k v m))"
  by (simp add: list_all_update)

lemma wrappedResult_fields:
  "map_of (wrappedResult env resultMap textContent others text) ''isError''
     = map_of resultMap ''isError''"
  "\<exists>textContent'.
     map_of (wrappedResult env resultMap textContent others text) ''content''
       = Some (GoSlice (GoMap textContent' # others))
     \<and> map_of textContent' ''text'' = Some (GoString (''Backend error: '' @ sprintV env text))"
  by (simp_all add: wrappedResult_def update_conv')

text \<open>
  Claim C3, amended to the status the code accepts. When the \<open>tools/call\<close> reply has status
  200 and its result map has \<open>isError == true\<close> and a content array whose first entry is a
  map with a \<open>text\<close>, the client receives a success reply whose first content entry's text
  is \<open>"Backend error: "\<close> followed by the original text, and whose \<open>isError\<close> is still
  true.
\<close>

theorem onToolsCallResponse_wraps_backend_error:
  assumes dec: "decoded (GoMap response)"
    and res: "map_of response ''result'' = Some (GoMap resultMap)"
    and err: "map_of resultMap ''isError'' = Some (GoBool True)"
    and con: "map_of resultMap ''content'' = Some (GoSlice (GoMap textContent # others))"
    and hastext: "map_of textContent ''text'' = Some text"
  shows "onToolsCallResponse env w 200 responseHeaders (Json (GoMap response)) =
           emit [Logf LogWarn ''Backend reported tool call error for %s'',
                 OnMCPResponseSuccess (wrappedResult env resultMap textContent others text)
                   ''mcp-proxy:error:backend_wrapped''] w
         \<and> map_of (wrappedResult env resultMap textContent others text) ''isError''
             = Some (GoBool True)
         \<and> (\<exists>textContent'.
               map_of (wrappedResult env resultMap textContent others text) ''content''
                 = Some (GoSlice (GoMap textContent' # others))
               \<and> map_of textContent' ''text''
                   = Some (GoString (''Backend error: '' @ sprintV env text)))"
proof -
  let ?r = "wrappedResult env resultMap textContent others text"
  have rep: "reportsToolError (Json (GoMap response))"
    using res err by (simp add: reportsToolError_def)
  have att: "addSourceAttribution env response = AList.update ''result'' (GoMap ?r) response"
    using res con hastext by (simp add: addSourceAttribution_def wrappedResult_def Let_def)
  have d1: "decoded (GoMap resultMap)"
    using dec res by (auto dest: decoded_map_of)
  then have "decoded (GoSlice (GoMap textContent # others))"
    using con by (auto dest: decoded_map_of)
  then have d2: "decoded (GoMap textContent)" and d3: "list_all decoded others"
    by simp_all
  have "decoded (GoMap (AList.update ''text'' (GoString (''Backend error: '' @ sprintV env text))
                          textContent))"
    using d2 by (intro decoded_update) simp_all
  then have "decoded (GoSlice (GoMap (AList.update ''text''
               (GoString (''Backend error: '' @ sprintV env text)) textContent) # others))"
    using d3 by simp
  then have d4: "decoded (GoMap ?r)"
    unfolding wrappedResult_def using d1 by (intro decoded_update)
  have "decoded (GoMap (AList.update ''result'' (GoMap ?r) response))"
    using dec d4 by (intro decoded_update)
  then have rm: "remarshalMap (addSourceAttribution env response)
                  = AList.update ''result'' (GoMap ?r) response"
    unfolding att by (rule remarshalMap_decoded)
  have wrap: "wrapBackendError env w' (Json (GoMap response))
                = emit [OnMCPResponseSuccess ?r ''mcp-proxy:error:backend_wrapped''] w'" for w'
    by (simp add: wrapBackendError_def rm update_conv' Let_def)
  have "onToolsCallResponse env w 200 responseHeaders (Json (GoMap response)) =
           emit [Logf LogWarn ''Backend reported tool call error for %s'',
                 OnMCPResponseSuccess ?r ''mcp-proxy:error:backend_wrapped''] w"
    using rep by (simp add: onToolsCallResponse_def wrap emit_def)
  moreover have "map_of ?r ''isError'' = Some (GoBool True)"
    using err by (simp add: wrappedResult_fields)
  moreover note wrappedResult_fields(2) [of env resultMap textContent others "text"]
  ultimately show ?thesis by blast
qed

theorem onToolsCallResponse_wraps_backend_error_witness:
  "trace (onToolsCallResponse demoEnv (demoWorld (demoContext None None)) 200 [] toolErrorBody)
   = [Logf LogWarn ''Backend reported tool call error for %s'',
      OnMCPResponseSuccess
        [(''content'', GoSlice [GoMap [(''type'', GoString ''text''),
                                        (''text'', GoString ''Backend error: x'')]]),
         (''isError'', GoBool True)]
        ''mcp-proxy:error:backend_wrapped'']"
proof -
  let ?resp = "[(''jsonrpc'', GoString ''2.0''),
        (''id'', GoFloat64 3),
        (''result'', GoMap
           [(''content'', GoSlice [GoMap [(''type'', GoString ''text''), (''text'', GoString ''x'')]]),
            (''isError'', GoBool True)])]"
  let ?res = "[(''content'', GoSlice [GoMap [(''type'', GoString ''text''), (''text'', GoString ''x'')]]),
            (''isError'', GoBool True)]"
  have a: "decoded (GoMap ?resp)" by simp
  have b: "map_of ?resp ''result'' = Some (GoMap ?res)" by simp
  have c: "map_of ?res ''isError'' = Some (GoBool True)" by simp
  have d: "map_of ?res ''content''
             = Some (GoSlice (GoMap [(''type'', GoString ''text''), (''text'', GoString ''x'')] # []))"
    by simp
  have e: "map_of [(''type'', GoString ''text''), (''text'', GoString ''x'')] ''text''
             = Some (GoString ''x'')"
    by simp
  from onToolsCallResponse_wraps_backend_error [OF a b c d e, of demoEnv
      "demoWorld (demoContext None None)" "[]"]
  show ?thesis
    by (simp add: toolErrorBody_def emit_def demoWorld_def wrappedResult_def sprintV_def)
qed

text \<open>
  The claim C3 as stated speaks of any 2xx status: at status 202 the same body is answered
  with an INTERNAL_ERROR reply.
\<close>

theorem onToolsCallResponse_status_202_counterexample:
  "trace (onToolsCallResponse demoEnv (demoWorld (demoContext None None)) 202 [] toolErrorBody)
   = [Logf LogError ''Tools/call request failed with status %d: %s'',
      OnMCPResponseError ''backend tools/call failed'' (- 32603)
        ''mcp-proxy:tools/call:backend_error'']"
  by (simp add: onToolsCallResponse_def emit_def demoWorld_def ErrInternalError_def)

lemma replaceFirstHeader_Some:
  "replaceFirstHeader name credential hs = Some hs' \<Longrightarrow> map_of hs' name = Some credential"
  by (induction hs arbitrary: hs') (auto split: if_splits)

lemma replaceFirstHeader_None:
  "replaceFirstHeader name credential hs = None \<Longrightarrow> map_of hs name = None"
  by (induction hs) (auto split: if_splits)

lemma map_of_addOrUpdateHeader:
  "map_of (addOrUpdateHeader name credential hs) name = Some credential"
  by (auto simp: addOrUpdateHeader_def map_add_def
      dest: replaceFirstHeader_Some replaceFirstHeader_None split: option.splits)

lemma authenticate_failure:
  assumes "authInfo = Some info" and "SecuritySchemeID info \<noteq> []"
    and "applyProxyAuthentication env h (Server info) (SecuritySchemeID info)
           (PaiPassthroughCredential info) hs = Inl err"
  shows "authenticate env h authInfo hs f g = (backendURL h, hs, [Logf LogError f])"
  using assms by (simp add: authenticate_def)

lemma executeToolsCall_auth_failure:
  assumes "mcp_proxy_tool_name (httpCtx w) = Some toolName"
    and "mcp_proxy_tool_args (httpCtx w) = Some arguments"
    and "mcp_proxy_auth_info (httpCtx w) = Some info"
    and "SecuritySchemeID info \<noteq> []"
    and "applyProxyAuthentication env (handler w) (Server info) (SecuritySchemeID info)
           (PaiPassthroughCredential info) (requestHeaders (handler w)) = Inl err"
  shows "executeToolsCall env w =
           (emit [Logf LogError ''Failed to apply authentication for proxy tool call: %v'',
                  RouteCall ''POST'' (backendURL (handler w)) (requestHeaders (handler w))
                    (GoMap (createToolsCallRequest toolName arguments))
                    (ToolsCallCallback toolName)] w,
            (case RouteCallResult env (backendURL (handler w)) of
               None \<Rightarrow> NoError | Some e \<Rightarrow> Failed e))"
  using assms by (simp add: executeToolsCall_def authenticate_failure Let_def)

text \<open>
  Claim C6, amended. \<open>ApplyAuthentication\<close> uses the passthrough credential when it is
  present and the scheme's default credential otherwise; with neither it fails with "no
  credential available for scheme"; with a credential it sets the scheme's header, or
  \<open>Authorization\<close> for an \<open>http\<close> scheme. It takes no explicit credential. In
  \<open>executeToolsCall\<close> a failed authentication is logged and the request is still routed to
  the backend URL with the headers unchanged: no error reply is sent for it.
\<close>

theorem credential_selection_and_missing_credential:
  assumes "GetSecurityScheme s schemeID = Some scheme"
  shows "(PassthroughCredential ctx \<noteq> [] \<longrightarrow>
            chosenCredential scheme ctx = PassthroughCredential ctx)
       \<and> (PassthroughCredential ctx = [] \<longrightarrow>
            chosenCredential scheme ctx = DefaultCredential scheme)
       \<and> (chosenCredential scheme ctx = [] \<longrightarrow>
            ApplyAuthentication s ctx schemeID
              = Inl (''no credential available for scheme '' @ schemeID))
       \<and> (chosenCredential scheme ctx \<noteq> [] \<and> Type scheme = ''apiKey'' \<and> In scheme = ''header'' \<longrightarrow>
            (\<exists>ctx'. ApplyAuthentication s ctx schemeID = Inr ctx'
                   \<and> map_of (Headers ctx') (Name scheme) = Some (chosenCredential scheme ctx)))
       \<and> (chosenCredential scheme ctx \<noteq> [] \<and> Type scheme = ''http'' \<longrightarrow>
            (\<exists>ctx'. ApplyAuthentication s ctx schemeID = Inr ctx'
                   \<and> map_of (Headers ctx') ''Authorization'' = Some (chosenCredential scheme ctx)))
       \<and> (mcp_proxy_tool_name (httpCtx w) = Some toolName
            \<and> mcp_proxy_tool_args (httpCtx w) = Some arguments
            \<and> mcp_proxy_auth_info (httpCtx w) = Some info
            \<and> SecuritySchemeID info \<noteq> []
            \<and> applyProxyAuthentication env (handler w) (Server info) (SecuritySchemeID info)
                 (PaiPassthroughCredential info) (requestHeaders (handler w)) = Inl err \<longrightarrow>
            fst (executeToolsCall env w) =
              emit [Logf LogError ''Failed to apply authentication for proxy tool call: %v'',
                    RouteCall ''POST'' (backendURL (handler w)) (requestHeaders (handler w))
                      (GoMap (createToolsCallRequest toolName arguments))
                      (ToolsCallCallback toolName)] w)"
proof (intro conjI impI)
  show "chosenCredential scheme ctx = PassthroughCredential ctx"
    if "PassthroughCredential ctx \<noteq> []"
    using that by (simp add: chosenCredential_def)
  show "chosenCredential scheme ctx = DefaultCredential scheme"
    if "PassthroughCredential ctx = []"
    using that by (simp add: chosenCredential_def)
  show "ApplyAuthentication s ctx schemeID
          = Inl (''no credential available for scheme '' @ schemeID)"
    if "chosenCredential scheme ctx = []"
    using that assms by (simp add: ApplyAuthentication_def)
  show "\<exists>ctx'. ApplyAuthentication s ctx schemeID = Inr ctx'
          \<and> map_of (Headers ctx') (Name scheme) = Some (chosenCredential scheme ctx)"
    if "chosenCredential scheme ctx \<noteq> [] \<and> Type scheme = ''apiKey'' \<and> In scheme = ''header''"
    using that assms by (simp add: ApplyAuthentication_def map_of_addOrUpdateHeader)
  show "\<exists>ctx'. ApplyAuthentication s ctx schemeID = Inr ctx'
          \<and> map_of (Headers ctx') ''Authorization'' = Some (chosenCredential scheme ctx)"
    if "chosenCredential scheme ctx \<noteq> [] \<and> Type scheme = ''http''"
    using that assms by (simp add: ApplyAuthentication_def map_of_addOrUpdateHeader)
  show "fst (executeToolsCall env w) =
              emit [Logf LogError ''Failed to apply authentication for proxy tool call: %v'',
                    RouteCall ''POST'' (backendURL (handler w)) (requestHeaders (handler w))
                      (GoMap (createToolsCallRequest toolName arguments))
                      (ToolsCallCallback toolName)] w"
    if "mcp_proxy_tool_name (httpCtx w) = Some toolName
            \<and> mcp_proxy_tool_args (httpCtx w) = Some arguments
            \<and> mcp_proxy_auth_info (httpCtx w) = Some info
            \<and> SecuritySchemeID info \<noteq> []
            \<and> applyProxyAuthentication env (handler w) (Server info) (SecuritySchemeID info)
                 (PaiPassthroughCredential info) (requestHeaders (handler w)) = Inl err"
    using that by (simp add: executeToolsCall_auth_failure)
qed

lemma demo_missing_credential:
  "applyProxyAuthentication demoEnv demoHandler demoServer ''BackendApiKey'' []
     (requestHeaders demoHandler)
   = Inl ''no credential available for scheme BackendApiKey''"
  by (simp add: applyProxyAuthentication_def demoEnv_def demoApplySecurity_def
      ApplyAuthentication_def GetSecurityScheme_def demoServer_def demoScheme_def
      chosenCredential_def Let_def)

text \<open>
  The claim C6 as stated has the missing credential surfaced to the client: with no
  passthrough and no default credential the request is routed all the same.
\<close>

theorem missing_credential_is_not_surfaced_counterexample:
  "ApplyAuthentication demoServer (demoAuthContext [(''Content-Type'', ''application/json'')] [])
     ''BackendApiKey''
     = Inl ''no credential available for scheme BackendApiKey''
   \<and> executeToolsCall demoEnv (demoWorld (demoCallContext (Some (demoAuthInfo ''BackendApiKey'' [])))) =
      (\<lparr> handler = demoHandler,
         httpCtx = demoCallContext (Some (demoAuthInfo ''BackendApiKey'' [])),
         trace = [Logf LogError ''Failed to apply authentication for proxy tool call: %v'',
                  RouteCall ''POST'' ''http://backend.example.com/mcp''
                    [(''Content-Type'', ''application/json'')]
                    (GoMap (createToolsCallRequest ''get_product''
                              [(''product_id'', GoString ''12345'')]))
                    (ToolsCallCallback ''get_product'')] \<rparr>,
       NoError)"
proof -
  have a: "ApplyAuthentication demoServer
             (demoAuthContext [(''Content-Type'', ''application/json'')] []) ''BackendApiKey''
           = Inl ''no credential available for scheme BackendApiKey''"
    by (simp add: ApplyAuthentication_def GetSecurityScheme_def demoServer_def demoScheme_def
        chosenCredential_def demoAuthContext_def Let_def)
  let ?w = "demoWorld (demoCallContext (Some (demoAuthInfo ''BackendApiKey'' [])))"
  have b: "applyProxyAuthentication demoEnv (handler ?w) (Server (demoAuthInfo ''BackendApiKey'' []))
             (SecuritySchemeID (demoAuthInfo ''BackendApiKey'' []))
             (PaiPassthroughCredential (demoAuthInfo ''BackendApiKey'' []))
             (requestHeaders (handler ?w))
           = Inl ''no credential available for scheme BackendApiKey''"
    by (simp add: demoAuthInfo_def demoWorld_def demo_missing_credential)
  have c: "executeToolsCall demoEnv ?w =
      (\<lparr> handler = demoHandler,
         httpCtx = demoCallContext (Some (demoAuthInfo ''BackendApiKey'' [])),
         trace = [Logf LogError ''Failed to apply authentication for proxy tool call: %v'',
                  RouteCall ''POST'' ''http://backend.example.com/mcp''
                    [(''Content-Type'', ''application/json'')]
                    (GoMap (createToolsCallRequest ''get_product''
                              [(''product_id'', GoString ''12345'')]))
                    (ToolsCallCallback ''get_product'')] \<rparr>,
       NoError)"
    by (subst executeToolsCall_auth_failure [OF _ _ _ _ b])
       (simp_all add: demoWorld_def demoCallContext_def demoAuthInfo_def emit_def
          requestHeaders_def demoHandler_def demoEnv_def)
  from a c show ?thesis by blast
qed

theorem credential_selection_and_missing_credential_witness:
  "GetSecurityScheme demoServer ''ServiceKey''
     = Some (demoScheme ''ServiceKey'' ''apiKey'' ''header'' ''X-Service-Key'' ''default-service-key'')
   \<and> chosenCredential
         (demoScheme ''ServiceKey'' ''apiKey'' ''header'' ''X-Service-Key'' ''default-service-key'')
         (demoAuthContext [(''Content-Type'', ''application/json'')] []) = ''default-service-key''
   \<and> (\<exists>ctx'. ApplyAuthentication demoServer
                  (demoAuthContext [(''Content-Type'', ''application/json'')] []) ''ServiceKey''
                = Inr ctx'
              \<and> map_of (Headers ctx') ''X-Service-Key'' = Some ''default-service-key'')
   \<and> trace (fst (executeToolsCall demoEnv
                    (demoWorld (demoCallContext (Some (demoAuthInfo ''BackendApiKey'' []))))))
       = [Logf LogError ''Failed to apply authentication for proxy tool call: %v'',
          RouteCall ''POST'' ''http://backend.example.com/mcp''
            [(''Content-Type'', ''application/json'')]
            (GoMap (createToolsCallRequest ''get_product'' [(''product_id'', GoString ''12345'')]))
            (ToolsCallCallback ''get_product'')]"
proof -
  let ?scheme = "demoScheme ''ServiceKey'' ''apiKey'' ''header'' ''X-Service-Key'' ''default-service-key''"
  let ?ctx = "demoAuthContext [(''Content-Type'', ''application/json'')] []"
  let ?info = "demoAuthInfo ''BackendApiKey'' []"
  let ?w = "demoWorld (demoCallContext (Some ?info))"
  have g: "GetSecurityScheme demoServer ''ServiceKey'' = Some ?scheme"
    by (simp add: GetSecurityScheme_def demoServer_def)
  have b: "applyProxyAuthentication demoEnv (handler ?w) (Server ?info) (SecuritySchemeID ?info)
             (PaiPassthroughCredential ?info) (requestHeaders (handler ?w))
           = Inl ''no credential available for scheme BackendApiKey''"
    by (simp add: demoAuthInfo_def demoWorld_def demo_missing_credential)
  note t = credential_selection_and_missing_credential [OF g, of ?ctx ?w "''get_product''"
      "[(''product_id'', GoString ''12345'')]" ?info demoEnv
      "''no credential available for scheme BackendApiKey''"]
  have p: "PassthroughCredential ?ctx = []"
    by (simp add: demoAuthContext_def)
  from t p have c1: "chosenCredential ?scheme ?ctx = ''default-service-key''"
    by (simp add: demoScheme_def)
  from t c1 have c2: "\<exists>ctx'. ApplyAuthentication demoServer ?ctx ''ServiceKey'' = Inr ctx'
      \<and> map_of (Headers ctx') ''X-Service-Key'' = Some ''default-service-key''"
    by (simp add: demoScheme_def)
  have pre: "mcp_proxy_tool_name (httpCtx ?w) = Some ''get_product''
      \<and> mcp_proxy_tool_args (httpCtx ?w) = Some [(''product_id'', GoString ''12345'')]
      \<and> mcp_proxy_auth_info (httpCtx ?w) = Some ?info
      \<and> SecuritySchemeID ?info \<noteq> []"
    by (simp add: demoWorld_def demoCallContext_def demoAuthInfo_def)
  from t pre b have c3: "fst (executeToolsCall demoEnv ?w) =
      emit [Logf LogError ''Failed to apply authentication for proxy tool call: %v'',
            RouteCall ''POST'' (backendURL (handler ?w)) (requestHeaders (handler ?w))
              (GoMap (createToolsCallRequest ''get_product'' [(''product_id'', GoString ''12345'')]))
              (ToolsCallCallback ''get_product'')] ?w"
    by blast
  have c4: "trace (fst (executeToolsCall demoEnv ?w))
       = [Logf LogError ''Failed to apply authentication for proxy tool call: %v'',
          RouteCall ''POST'' ''http://backend.example.com/mcp''
            [(''Content-Type'', ''application/json'')]
            (GoMap (createToolsCallRequest ''get_product'' [(''product_id'', GoString ''12345'')]))
            (ToolsCallCallback ''get_product'')]"
    unfolding c3 by (simp add: emit_def demoWorld_def demoHandler_def requestHeaders_def)
  from g c1 c2 c4 show ?thesis by blast
qed

lemma authenticate_result:
  "\<exists>finalURL hs logs. authenticate env h authInfo hs0 f g = (finalURL, hs, logs)"
  by (cases "authenticate env h authInfo hs0 f g") auto

lemma executeToolsList_routes:
  "\<exists>finalURL hs logs.
     executeToolsList env w =
       (emit (logs @ [RouteCall ''POST'' finalURL hs
                        (GoMap (createToolsListRequest (mcp_proxy_cursor (httpCtx w))))
                        ToolsListCallback]) w,
        (case RouteCallResult env finalURL of None \<Rightarrow> NoError | Some err \<Rightarrow> Failed err))"
proof -
  obtain finalURL hs logs where
    "authenticate env (handler w) (mcp_proxy_auth_info (httpCtx w)) (requestHeaders (handler w))
       ''Failed to apply authentication for tools/list request: %v''
       ''Using modified URL for tools/list request: %s'' = (finalURL, hs, logs)"
    using authenticate_result by blast
  then have "executeToolsList env w =
       (emit (logs @ [RouteCall ''POST'' finalURL hs
                        (GoMap (createToolsListRequest (mcp_proxy_cursor (httpCtx w))))
                        ToolsListCallback]) w,
        (case RouteCallResult env finalURL of None \<Rightarrow> NoError | Some err \<Rightarrow> Failed err))"
    by (simp add: executeToolsList_def Let_def)
  then show ?thesis by blast
qed

lemma executeToolsCall_routes:
  assumes "mcp_proxy_tool_name (httpCtx w) = Some toolName"
    and "mcp_proxy_tool_args (httpCtx w) = Some arguments"
  shows "\<exists>finalURL hs logs.
     executeToolsCall env w =
       (emit (logs @ [RouteCall ''POST'' finalURL hs
                        (GoMap (createToolsCallRequest toolName arguments))
                        (ToolsCallCallback toolName)]) w,
        (case RouteCallResult env finalURL of None \<Rightarrow> NoError | Some err \<Rightarrow> Failed err))"
proof -
  obtain finalURL hs logs where
    "authenticate env (handler w) (mcp_proxy_auth_info (httpCtx w)) (requestHeaders (handler w))
       ''Failed to apply authentication for proxy tool call: %v''
       ''Using modified URL for tools/call request: %s'' = (finalURL, hs, logs)"
    using authenticate_result by blast
  then have "executeToolsCall env w =
       (emit (logs @ [RouteCall ''POST'' finalURL hs
                        (GoMap (createToolsCallRequest toolName arguments))
                        (ToolsCallCallback toolName)]) w,
        (case RouteCallResult env finalURL of None \<Rightarrow> NoError | Some err \<Rightarrow> Failed err))"
    using assms by (simp add: executeToolsCall_def Let_def)
  then show ?thesis by blast
qed

lemma emit_fields [simp]:
  "httpCtx (emit es w) = httpCtx w" "handler (emit es w) = handler w"
  "trace (emit es w) = trace w @ es"
  by (simp_all add: emit_def)

lemma pendingRequest_initialized [simp]:
  "pendingRequest (c\<lparr>mcp_proxy_initialized := x\<rparr>) = pendingRequest c"
  by (simp add: pendingRequest_def split: option.splits McpProxyOperation.splits)

lemma runPendingOperation_routes:
  assumes "pendingRequest (httpCtx w) = Some (request, callback)"
  shows "\<exists>w' finalURL hs before after.
           runPendingOperation env w = (w', NoError)
         \<and> httpCtx w' = httpCtx w
         \<and> trace w' = trace w @ before @ RouteCall ''POST'' finalURL hs request callback # after"
proof (cases "mcp_proxy_operation (httpCtx w)")
  case None
  with assms show ?thesis by (simp add: pendingRequest_def)
next
  case (Some op)
  show ?thesis
  proof (cases op)
    case OpToolsList
    with Some assms have rc: "request = GoMap (createToolsListRequest (mcp_proxy_cursor (httpCtx w)))"
      "callback = ToolsListCallback"
      by (simp_all add: pendingRequest_def)
    obtain finalURL hs logs where
      e: "executeToolsList env w =
           (emit (logs @ [RouteCall ''POST'' finalURL hs request callback]) w,
            (case RouteCallResult env finalURL of None \<Rightarrow> NoError | Some err \<Rightarrow> Failed err))"
      using executeToolsList_routes [of env w] unfolding rc by blast
    show ?thesis
    proof (cases "RouteCallResult env finalURL")
      case None
      with e Some OpToolsList have
        "runPendingOperation env w =
           (emit (logs @ [RouteCall ''POST'' finalURL hs request callback]) w, NoError)"
        by (simp add: runPendingOperation_def)
      then show ?thesis by (intro exI [where x = "[]"] exI) auto
    next
      case (Some err)
      with e \<open>mcp_proxy_operation (httpCtx w) = Some op\<close> OpToolsList have
        "runPendingOperation env w =
           (emit [Logf LogError ''Failed to execute tools/list: %v'',
                  OnMCPResponseError err ErrInternalError ''mcp-proxy:tools/list:execution_error'']
              (emit (logs @ [RouteCall ''POST'' finalURL hs request callback]) w), NoError)"
        by (simp add: runPendingOperation_def)
      then show ?thesis by (intro exI) auto
    qed
  next
    case OpToolsCall
    with Some assms obtain toolName arguments where
      na: "mcp_proxy_tool_name (httpCtx w) = Some toolName"
        "mcp_proxy_tool_args (httpCtx w) = Some arguments"
      and rc: "request = GoMap (createToolsCallRequest toolName arguments)"
        "callback = ToolsCallCallback toolName"
      by (auto simp: pendingRequest_def split: option.splits)
    obtain finalURL hs logs where
      e: "executeToolsCall env w =
           (emit (logs @ [RouteCall ''POST'' finalURL hs request callback]) w,
            (case RouteCallResult env finalURL of None \<Rightarrow> NoError | Some err \<Rightarrow> Failed err))"
      using executeToolsCall_routes [OF na, of env] unfolding rc by blast
    show ?thesis
    proof (cases "RouteCallResult env finalURL")
      case None
      with e Some OpToolsCall have
        "runPendingOperation env w =
           (emit (logs @ [RouteCall ''POST'' finalURL hs request callback]) w, NoError)"
        by (simp add: runPendingOperation_def)
      then show ?thesis by (intro exI [where x = "[]"] exI) auto
    next
      case (Some err)
      with e \<open>mcp_proxy_operation (httpCtx w) = Some op\<close> OpToolsCall have
        "runPendingOperation env w =
           (emit [Logf LogError ''Failed to execute tools/call: %v'',
                  OnMCPResponseError err ErrInternalError ''mcp-proxy:tools/call:execution_error'']
              (emit (logs @ [RouteCall ''POST'' finalURL hs request callback]) w), NoError)"
        by (simp add: runPendingOperation_def)
      then show ?thesis by (intro exI) auto
    qed
  next
    case (OpOther x)
    with Some assms show ?thesis by (simp add: pendingRequest_def)
  qed
qed

text \<open>
  Claim C8. When the backend answers \<open>notifications/initialized\<close> with a status outside
  200..299, the callback logs a warning, marks the context initialised, and issues the
  pending \<open>tools/list\<close> or \<open>tools/call\<close> request; it returns without error.
\<close>

theorem initialized_notification_failure_does_not_abort:
  assumes "statusCode < 200 \<or> 299 < statusCode"
    and "pendingRequest (httpCtx w) = Some (request, callback)"
  shows "\<exists>w' finalURL hs before after.
           onInitializedNotificationResponse env w statusCode responseHeaders responseBody
             = (w', NoError)
         \<and> mcp_proxy_initialized (httpCtx w') = Some True
         \<and> trace w' = trace w
             @ Logf LogWarn ''Initialized notification failed with status %d: %s''
             # before @ RouteCall ''POST'' finalURL hs request callback # after"
proof -
  let ?w1 = "emit [Logf LogWarn ''Initialized notification failed with status %d: %s''] w"
  let ?w2 = "?w1\<lparr>httpCtx := (httpCtx ?w1)\<lparr>mcp_proxy_initialized := Some True\<rparr>\<rparr>"
  from assms(1) have ne: "statusCode \<noteq> 200" by auto
  have "pendingRequest (httpCtx ?w2) = Some (request, callback)"
    using assms(2) by simp
  from runPendingOperation_routes [OF this, of env]
  obtain w3 finalURL hs before after where
    r: "runPendingOperation env ?w2 = (w3, NoError)"
    and c: "httpCtx w3 = httpCtx ?w2"
    and t: "trace w3 = trace ?w2 @ before @ RouteCall ''POST'' finalURL hs request callback # after"
    by blast
  have "onInitializedNotificationResponse env w statusCode responseHeaders responseBody
          = (emit [ResumeHttpRequest] w3, NoError)"
    using ne r by (simp add: onInitializedNotificationResponse_def Let_def)
  moreover have "mcp_proxy_initialized (httpCtx (emit [ResumeHttpRequest] w3)) = Some True"
    using c by simp
  moreover have "trace (emit [ResumeHttpRequest] w3) = trace w
             @ Logf LogWarn ''Initialized notification failed with status %d: %s''
             # before @ RouteCall ''POST'' finalURL hs request callback # (after @ [ResumeHttpRequest])"
    using t by simp
  ultimately show ?thesis by blast
qed

text \<open>
  The claim C4 as stated gives the tool request the id 2 for \<open>tools/call\<close> too: the request
  that \<open>createToolsCallRequest\<close> builds carries 3.
\<close>

theorem createToolsCallRequest_id_counterexample:
  "map_of (createToolsCallRequest ''get_product'' [(''product_id'', GoString ''12345'')]) ''id''
     \<noteq> Some (GoInt 2)"
  by (simp add: createToolsCallRequest_def)

text \<open>
  Claim C4, amended. The ids of the frames the handler sends to the backend are constants:
  \<open>initialize\<close> carries 1, the \<open>notifications/initialized\<close> frame carries no id,
  \<open>tools/list\<close> carries 2 and \<open>tools/call\<close> carries 3. The id of a backend reply is never
  read: the reply handed on for the client is the same whatever id the backend's frame
  carries.
\<close>

theorem backend_request_ids:
  "map_of createInitializeRequest ''id'' = Some (GoInt 1)
   \<and> map_of initializedNotification ''id'' = None
   \<and> map_of (createToolsListRequest cursor) ''id'' = Some (GoInt 2)
   \<and> map_of (createToolsCallRequest toolName arguments) ''id'' = Some (GoInt 3)
   \<and> onToolsListResponse w statusCode responseHeaders (Json (GoMap (AList.update ''id'' x response)))
       = onToolsListResponse w statusCode responseHeaders (Json (GoMap response))
   \<and> onToolsCallResponse env w statusCode responseHeaders
         (Json (GoMap (AList.update ''id'' x response)))
       = onToolsCallResponse env w statusCode responseHeaders (Json (GoMap response))"
  by (simp add: request_ids onToolsListResponse_id onToolsCallResponse_id)

theorem backend_request_ids_witness:
  "map_of (createToolsListRequest (Some ''c1'')) ''id'' = Some (GoInt 2)
   \<and> map_of (createToolsCallRequest ''get_product'' [(''product_id'', GoString ''12345'')]) ''id''
       = Some (GoInt 3)
   \<and> onToolsCallResponse demoEnv (demoWorld (demoContext None None)) 200 []
         (Json (GoMap (AList.update ''id'' (GoFloat64 7) [(''result'', GoMap [])])))
       = onToolsCallResponse demoEnv (demoWorld (demoContext None None)) 200 []
           (Json (GoMap [(''result'', GoMap [])]))"
  using backend_request_ids [of "Some ''c1''" "''get_product''"
      "[(''product_id'', GoString ''12345'')]" "demoWorld (demoContext None None)" 200 "[]"
      "GoFloat64 7" "[(''result'', GoMap [])]" demoEnv]
  by simp

theorem initialized_notification_failure_does_not_abort_witness:
  "\<exists>w' finalURL hs before after.
     onInitializedNotificationResponse demoEnv (demoWorld (demoCallContext None)) 500 []
       (Malformed ''unexpected end of JSON input'') = (w', NoError)
   \<and> mcp_proxy_initialized (httpCtx w') = Some True
   \<and> trace w' = trace (demoWorld (demoCallContext None))
       @ Logf LogWarn ''Initialized notification failed with status %d: %s''
       # before
       @ RouteCall ''POST'' finalURL hs
           (GoMap (createToolsCallRequest ''get_product'' [(''product_id'', GoString ''12345'')]))
           (ToolsCallCallback ''get_product'')
       # after"
proof -
  have s: "(500::int) < 200 \<or> 299 < (500::int)"
    by simp
  have p: "pendingRequest (httpCtx (demoWorld (demoCallContext None)))
             = Some (GoMap (createToolsCallRequest ''get_product''
                              [(''product_id'', GoString ''12345'')]),
                     ToolsCallCallback ''get_product'')"
    by (simp add: pendingRequest_def demoWorld_def demoCallContext_def)
  show ?thesis
    using initialized_notification_failure_does_not_abort [OF s p] .
qed


section \<open>Properties of the codec and of the SSE accumulator\<close>

lemma idValue_inj: "idValue i = idValue j \<Longrightarrow> i = j"
  by (cases i; cases j) (simp_all add: idValue_def)

lemma replyFrame_id: "replyFrame (Some i) e = Some f \<Longrightarrow> map_of f ''id'' = Some (idValue i)"
  by (cases e) (auto simp: replyFrame_def buildSuccess_def buildError_def)

lemma clientFrames_id:
  "f \<in> set (clientFrames (Some i) tr) \<Longrightarrow> map_of f ''id'' = Some (idValue i)"
  by (induction tr)
     (auto simp: clientFrames_def dest: replyFrame_id split: option.splits)

lemma clientFrames_notification: "clientFrames None tr = []"
  by (induction tr) (simp_all add: clientFrames_def replyFrame_def)

text \<open>
  Claim C1. For a client request with id \<open>i\<close>, a string or an integer-valued number, every
  reply frame delivered to the client carries under \<open>id\<close> the JSON value of \<open>i\<close>, a string
  for a string and a number for a number, and different ids give different values; this
  holds for the replies of the proxy layer and for the locally built one. For a
  notification no frame is delivered: it is acknowledged without a body.
\<close>

theorem client_id_preserved:
  "(\<forall>f \<in> set (clientFrames (Some i) tr). map_of f ''id'' = Some (idValue i))
   \<and> idValue (StringID s) = GoString s
   \<and> idValue (NumberID n) = GoInt n
   \<and> (idValue i = idValue j \<longrightarrow> i = j)
   \<and> (frameId fr = Some i \<longrightarrow>
        (\<forall>f. dispatchClientFrame fr = LocalReply f \<longrightarrow> map_of f ''id'' = Some (idValue i)))
   \<and> clientFrames None tr = []
   \<and> (frameId fr = None \<longrightarrow> dispatchClientFrame fr = Ack202)"
proof (intro conjI ballI impI allI)
  show "map_of f ''id'' = Some (idValue i)" if "f \<in> set (clientFrames (Some i) tr)" for f
    using that by (rule clientFrames_id)
  show "idValue (StringID s) = GoString s" "idValue (NumberID n) = GoInt n"
    by (simp_all add: idValue_def)
  show "i = j" if "idValue i = idValue j"
    using that by (rule idValue_inj)
  show "map_of f ''id'' = Some (idValue i)"
    if "frameId fr = Some i" "dispatchClientFrame fr = LocalReply f" for f
    using that by (auto simp: dispatchClientFrame_def buildError_def split: if_splits)
  show "clientFrames None tr = []"
    by (rule clientFrames_notification)
  show "dispatchClientFrame fr = Ack202" if "frameId fr = None"
    using that by (simp add: dispatchClientFrame_def)
qed

lemma demo_tools_list_trace:
  "trace (onToolsListResponse (demoWorld (demoContext (Some {''A''}) None)) 200 [] toolsListBody)
   = [OnMCPResponseSuccess [(''tools'', GoSlice [GoMap [(''name'', GoString ''A'')]])]
        ''mcp-proxy:tools/list:success'']"
  by (simp add: onToolsListResponse_def toolsListBody_def demoWorld_def demoContext_def
      applyAllowToolsFilter_def allowToolsOfContext_def allowToolsFromHeaderOfContext_def)

theorem client_id_preserved_witness:
  "clientFrames (Some (StringID ''c1''))
     (trace (onToolsListResponse (demoWorld (demoContext (Some {''A''}) None)) 200 [] toolsListBody))
     = [toolsListFrame (StringID ''c1'')]
   \<and> map_of (toolsListFrame (StringID ''c1'')) ''id'' = Some (GoString ''c1'')
   \<and> clientFrames (Some (NumberID 7))
     (trace (onToolsListResponse (demoWorld (demoContext (Some {''A''}) None)) 200 [] toolsListBody))
     = [toolsListFrame (NumberID 7)]
   \<and> map_of (toolsListFrame (NumberID 7)) ''id'' = Some (GoInt 7)
   \<and> clientFrames None
     (trace (onToolsListResponse (demoWorld (demoContext (Some {''A''}) None)) 200 [] toolsListBody))
     = []
   \<and> dispatchClientFrame
       \<lparr> frameId = None, frameMethod = ''notifications/initialized'', frameParams = GoNil \<rparr>
     = Ack202"
proof -
  let ?tr = "trace (onToolsListResponse (demoWorld (demoContext (Some {''A''}) None)) 200 []
                      toolsListBody)"
  let ?fr = "\<lparr> frameId = None, frameMethod = ''notifications/initialized'', frameParams = GoNil \<rparr>"
  have f: "clientFrames (Some i) ?tr = [toolsListFrame i]" for i
    unfolding demo_tools_list_trace
    by (simp add: clientFrames_def replyFrame_def buildSuccess_def toolsListFrame_def)
  note t1 = client_id_preserved [of "StringID ''c1''" ?tr "''c1''" 7 "StringID ''c1''" ?fr]
  note t2 = client_id_preserved [of "NumberID 7" ?tr "''c1''" 7 "NumberID 7" ?fr]
  from t1 have a: "map_of (toolsListFrame (StringID ''c1'')) ''id'' = Some (GoString ''c1'')"
    unfolding f by simp
  from t2 have b: "map_of (toolsListFrame (NumberID 7)) ''id'' = Some (GoInt 7)"
    unfolding f by simp
  from t1 have c: "clientFrames None ?tr = []" and d: "dispatchClientFrame ?fr = Ack202"
    by simp_all
  from f a b c d show ?thesis by simp
qed

lemma handle_buffer_bound:
  "length (sseBuffer ctx) \<le> MaxSSEBufferSize \<Longrightarrow>
   length (sseBuffer (fst (handleSSEStreamingResponse m ctx chunk))) \<le> MaxSSEBufferSize"
  by (auto simp: handleSSEStreamingResponse_def split: prod.splits)

lemma feedChunks_buffer_bound:
  "length (sseBuffer ctx) \<le> MaxSSEBufferSize \<Longrightarrow>
   length (sseBuffer (fst (feedChunks m ctx chunks))) \<le> MaxSSEBufferSize"
proof (induction chunks arbitrary: ctx)
  case Nil
  then show ?case by simp
next
  case (Cons chunk chunks)
  obtain ctx1 inj1 where h: "handleSSEStreamingResponse m ctx chunk = (ctx1, inj1)"
    by (cases "handleSSEStreamingResponse m ctx chunk")
  obtain ctx2 inj2 where f: "feedChunks m ctx1 chunks = (ctx2, inj2)"
    by (cases "feedChunks m ctx1 chunks")
  from handle_buffer_bound [OF Cons.prems, of m chunk] h
  have "length (sseBuffer ctx1) \<le> MaxSSEBufferSize" by simp
  from Cons.IH [OF this] f have "length (sseBuffer ctx2) \<le> MaxSSEBufferSize" by simp
  with h f show ?case by simp
qed

lemma feedChunks_terminal:
  "terminal (sseState ctx) \<Longrightarrow> feedChunks m ctx chunks = (ctx, [])"
  by (induction chunks) (simp_all add: handleSSEStreamingResponse_def)

lemma noEventIn_Cons:
  "noEventIn m buf (chunk # chunks) \<Longrightarrow>
   drainEvents m (buf @ chunk) = ([], buf @ chunk) \<and> noEventIn m (buf @ chunk) chunks"
proof
  assume a: "noEventIn m buf (chunk # chunks)"
  from a [unfolded noEventIn_def, rule_format, of 1]
  show "drainEvents m (buf @ chunk) = ([], buf @ chunk)" by simp
  show "noEventIn m (buf @ chunk) chunks"
    unfolding noEventIn_def
  proof (intro allI impI)
    fix k assume "k \<le> length chunks"
    with a [unfolded noEventIn_def, rule_format, of "Suc k"]
    show "drainEvents m ((buf @ chunk) @ concat (take k chunks))
            = ([], (buf @ chunk) @ concat (take k chunks))"
      by simp
  qed
qed

lemma feedChunks_overflow:
  assumes "sseState ctx \<noteq> NONE" and "\<not> terminal (sseState ctx)"
    and "noEventIn m (sseBuffer ctx) chunks"
    and "MaxSSEBufferSize < length (sseBuffer ctx @ concat chunks)"
    and "length (sseBuffer ctx) \<le> MaxSSEBufferSize"
  shows "feedChunks m ctx chunks =
           (ctx\<lparr>sseState := FAILED, sseBuffer := []\<rparr>,
            [InjectError (jsonRpcId ctx) BUFFER_OVERFLOW ErrInternalError])"
  using assms
proof (induction chunks arbitrary: ctx)
  case Nil
  then show ?case by simp
next
  case (Cons chunk chunks)
  from noEventIn_Cons [OF Cons.prems(3)]
  have d: "drainEvents m (sseBuffer ctx @ chunk) = ([], sseBuffer ctx @ chunk)"
    and n: "noEventIn m (sseBuffer ctx @ chunk) chunks"
    by simp_all
  show ?case
  proof (cases "MaxSSEBufferSize < length (sseBuffer ctx @ chunk)")
    case True
    with Cons.prems(1,2) d have
      "handleSSEStreamingResponse m ctx chunk =
         (ctx\<lparr>sseState := FAILED, sseBuffer := []\<rparr>,
          [InjectError (jsonRpcId ctx) BUFFER_OVERFLOW ErrInternalError])"
      by (simp add: handleSSEStreamingResponse_def)
    then show ?thesis
      by (simp add: feedChunks_terminal terminal_def)
  next
    case False
    with Cons.prems(1,2) d have
      h: "handleSSEStreamingResponse m ctx chunk = (ctx\<lparr>sseBuffer := sseBuffer ctx @ chunk\<rparr>, [])"
      by (simp add: handleSSEStreamingResponse_def)
    let ?c = "ctx\<lparr>sseBuffer := sseBuffer ctx @ chunk\<rparr>"
    have "feedChunks m ?c chunks =
           (?c\<lparr>sseState := FAILED, sseBuffer := []\<rparr>,
            [InjectError (jsonRpcId ?c) BUFFER_OVERFLOW ErrInternalError])"
      using Cons.prems n False by (intro Cons.IH) simp_all
    with h show ?thesis by simp
  qed
qed

text \<open>
  Claim C7. Fed a stream in which no event completes and which takes the accumulated bytes
  beyond 100 MiB, the SSE handler injects exactly one BUFFER_OVERFLOW error frame with code
  \<open>-32603\<close>, leaves the request FAILED, and injects nothing for any later chunk; and from
  a buffer within the bound the buffer it stores never exceeds 100 MiB.
\<close>

theorem sse_buffer_cap:
  assumes "sseState ctx \<noteq> NONE" and "\<not> terminal (sseState ctx)"
    and "length (sseBuffer ctx) \<le> MaxSSEBufferSize"
    and "noEventIn m (sseBuffer ctx) chunks"
    and "MaxSSEBufferSize < length (sseBuffer ctx @ concat chunks)"
  shows "fst (feedChunks m ctx chunks) = ctx\<lparr>sseState := FAILED, sseBuffer := []\<rparr>
       \<and> snd (feedChunks m ctx chunks)
           = [InjectError (jsonRpcId ctx) BUFFER_OVERFLOW (- 32603)]
       \<and> snd (feedChunks m (fst (feedChunks m ctx chunks)) later) = []
       \<and> length (sseBuffer (fst (feedChunks m ctx anyChunks))) \<le> MaxSSEBufferSize"
proof -
  have f: "feedChunks m ctx chunks =
           (ctx\<lparr>sseState := FAILED, sseBuffer := []\<rparr>,
            [InjectError (jsonRpcId ctx) BUFFER_OVERFLOW ErrInternalError])"
    using assms by (intro feedChunks_overflow)
  have "snd (feedChunks m (fst (feedChunks m ctx chunks)) later) = []"
    unfolding f by (simp add: feedChunks_terminal terminal_def)
  moreover have "length (sseBuffer (fst (feedChunks m ctx anyChunks))) \<le> MaxSSEBufferSize"
    using assms(3) by (rule feedChunks_buffer_bound)
  ultimately show ?thesis
    using f by (simp add: ErrInternalError_def)
qed

theorem sse_buffer_cap_witness:
  "fst (feedChunks demoMachine demoSSEContext [replicate 104857600 CHR ''a'', ''b''])
     = \<lparr> sseState = FAILED, sseBuffer = [], jsonRpcId = NumberID 42 \<rparr>
   \<and> snd (feedChunks demoMachine demoSSEContext [replicate 104857600 CHR ''a'', ''b''])
     = [InjectError (NumberID 42) BUFFER_OVERFLOW (- 32603)]
   \<and> snd (feedChunks demoMachine
            (fst (feedChunks demoMachine demoSSEContext [replicate 104857600 CHR ''a'', ''b'']))
            [''event: endpoint'']) = []"
proof -
  let ?chunks = "[replicate 104857600 CHR ''a'', ''b'']"
  have a: "sseState demoSSEContext \<noteq> NONE" "\<not> terminal (sseState demoSSEContext)"
    by (simp_all add: demoSSEContext_def terminal_def)
  have b: "length (sseBuffer demoSSEContext) \<le> MaxSSEBufferSize"
    by (simp add: demoSSEContext_def)
  have c: "noEventIn demoMachine (sseBuffer demoSSEContext) ?chunks"
    by (simp add: noEventIn_def demoMachine_def)
  have d: "MaxSSEBufferSize < length (sseBuffer demoSSEContext @ concat ?chunks)"
    by (simp add: demoSSEContext_def MaxSSEBufferSize_def)
  have e1: "demoSSEContext\<lparr>sseState := FAILED, sseBuffer := []\<rparr>
              = \<lparr> sseState = FAILED, sseBuffer = [], jsonRpcId = NumberID 42 \<rparr>"
    and e2: "jsonRpcId demoSSEContext = NumberID 42"
    by (simp_all add: demoSSEContext_def)
  note t = sse_buffer_cap [OF a b c d, of "[''event: endpoint'']"]
  from t have r1: "fst (feedChunks demoMachine demoSSEContext ?chunks)
                     = demoSSEContext\<lparr>sseState := FAILED, sseBuffer := []\<rparr>"
    by blast
  from t have r2: "snd (feedChunks demoMachine demoSSEContext ?chunks)
                     = [InjectError (jsonRpcId demoSSEContext) BUFFER_OVERFLOW (- 32603)]"
    by blast
  from t have r3: "snd (feedChunks demoMachine
                          (fst (feedChunks demoMachine demoSSEContext ?chunks))
                          [''event: endpoint'']) = []"
    by blast
  from r1 [unfolded e1] r2 [unfolded e2] r3 show ?thesis
    by blast
qed


end
